theory Spec2Isabelle
  imports Main "HOL-Library.AList"
begin

section \<open>Values of the JavaScript runtime\<close>

text \<open>
  Time is the number of milliseconds since the epoch, as \<^verbatim>\<open>Date.now()\<close> and
  \<^verbatim>\<open>new Date(x).getTime()\<close> give it. Telegram chat ids are integers (negative for
  groups), tenant ids are the non-negative keys of the \<^verbatim>\<open>tenants\<close> table. A property
  that is \<^verbatim>\<open>undefined\<close> or \<^verbatim>\<open>null\<close> is \<open>None\<close>.
\<close>

type_synonym timestamp = int

text \<open>\<^verbatim>\<open>String(n)\<close> of an integer: its decimal digits, with a minus sign when negative.\<close>

fun show_nat :: "nat \<Rightarrow> string" where
  "show_nat n =
     (if n < 10 then [''0123456789'' ! n]
      else show_nat (n div 10) @ [''0123456789'' ! (n mod 10)])"

declare show_nat.simps [simp del]

definition String_js :: "int \<Rightarrow> string" where
  "String_js i = (if i < 0 then CHR ''-'' # show_nat (nat (- i)) else show_nat (nat i))"

text \<open>\<^verbatim>\<open>String(x)\<close> of a property that holds a string or \<^verbatim>\<open>null\<close>.\<close>

definition String_opt :: "string option \<Rightarrow> string" where
  "String_opt x = (case x of None \<Rightarrow> ''null'' | Some s \<Rightarrow> s)"

text \<open>Truthiness of an optional string: \<^verbatim>\<open>null\<close> and the empty string are falsy.\<close>

definition truthy :: "string option \<Rightarrow> bool" where
  "truthy x = (case x of None \<Rightarrow> False | Some s \<Rightarrow> s \<noteq> [])"

text \<open>
  \<^verbatim>\<open>s.startsWith(p)\<close>, and \<^verbatim>\<open>s.trim()\<close> on strings read as lists of code units below
  256: the white space of ECMAScript in that range is TAB, LF, VT, FF, CR, SP and NBSP.
\<close>

fun startsWith :: "string \<Rightarrow> string \<Rightarrow> bool" where
  "startsWith s [] = True"
| "startsWith [] (p # ps) = False"
| "startsWith (c # cs) (p # ps) = (c = p \<and> startsWith cs ps)"

definition isWhiteSpace :: "char \<Rightarrow> bool" where
  "isWhiteSpace c = (of_char c \<in> {9, 10, 11, 12, 13, 32, 160 :: nat})"

definition trim :: "string \<Rightarrow> string" where
  "trim s = rev (dropWhile isWhiteSpace (rev (dropWhile isWhiteSpace s)))"

section \<open>Session store\<close>

subsection \<open>Data\<close>

record wa_instance =
  inst_id :: string
  wuzapiId :: string
  token :: string
  inst_name :: string
  isConnected :: bool
  webhook :: string

record whatsapp =
  instances :: "wa_instance list option"
  maxInstances :: "nat option"

record affiliate =
  balance :: int
  totalEarned :: int
  referralsCount :: int

text \<open>
  A session is the JSON object kept in \<^verbatim>\<open>bot_sessions.data\<close>. Every property can be
  absent, since the stored blob is whatever an earlier revision wrote.
\<close>

record session =
  stage :: "string option"
  isVip :: "bool option"
  whatsapp :: "whatsapp option"
  affiliate :: "affiliate option"
  reports :: "(string \<times> string) list option"
  temp_sync_id :: "string option"
  temp_openai_key :: "string option"

record cache_entry =
  data :: session
  timestamp :: timestamp

text \<open>
  A tenant, as a row of the \<^verbatim>\<open>tenants\<close> table and as the object the handlers of its
  bot share. \<^verbatim>\<open>owner_chat_id\<close> is a text, as the operator's wizard writes it;
  \<^verbatim>\<open>expiration_date\<close> is the instant the stored date denotes; \<open>activeUserCount\<close> is
  the property that \<open>startTenantBot\<close> adds to the object.
\<close>

record tenant =
  tenant_id :: nat
  name :: string
  telegram_token :: string
  owner_chat_id :: "string option"
  is_active :: bool
  expiration_date :: "timestamp option"
  max_users :: "int option"
  syncpay_client_id :: "string option"
  syncpay_client_secret :: "string option"
  openai_api_key :: "string option"
  openai_model :: "string option"
  system_prompt :: "string option"
  activeUserCount :: int

text \<open>
  The Supabase client answers every request with \<^verbatim>\<open>{ data, error }\<close> and never throws.
  The store is a table of tenants keyed by id and the list of the rows of
  \<^verbatim>\<open>bot_sessions\<close>, each with its key \<^verbatim>\<open>(tenant_id, chat_id)\<close> and its \<^verbatim>\<open>data\<close>
  column (\<^verbatim>\<open>updated_at\<close> is never read and is left out). While the store is
  unreachable (\<open>outage\<close>) every request is answered with that error and changes
  nothing. \<open>selects\<close> counts the read requests sent, so that a theorem can say that
  none was.
\<close>

record pg_error =
  code :: string
  message :: string

record database =
  tenants :: "nat \<rightharpoonup> tenant"
  bot_sessions :: "((nat \<times> string) \<times> session) list"
  outage :: "pg_error option"
  selects :: nat

text \<open>The error of \<^verbatim>\<open>.single()\<close> when no row matches.\<close>

definition PGRST116 :: pg_error where
  "PGRST116 = \<lparr>code = ''PGRST116'', message = ''no rows returned''\<rparr>"

text \<open>
  \<^verbatim>\<open>supabase.from('bot_sessions').select(..).eq('tenant_id', t).eq('chat_id', c).single()\<close>
\<close>

definition select_session ::
  "database \<Rightarrow> nat \<Rightarrow> string \<Rightarrow> (session option \<times> pg_error option) \<times> database" where
  "select_session db t c =
     (let db' = db\<lparr>selects := Suc (selects db)\<rparr> in
      case outage db of
        Some e \<Rightarrow> ((None, Some e), db')
      | None \<Rightarrow>
          (case map_of (bot_sessions db) (t, c) of
             None \<Rightarrow> ((None, Some PGRST116), db')
           | Some row \<Rightarrow> ((Some row, None), db')))"

text \<open>
  \<^verbatim>\<open>supabase.from('bot_sessions').upsert({tenant_id, chat_id, data, updated_at},
  {onConflict: 'tenant_id,chat_id'})\<close>; the caller never looks at the answer.
\<close>

definition upsert_session :: "database \<Rightarrow> nat \<Rightarrow> string \<Rightarrow> session \<Rightarrow> database" where
  "upsert_session db t c s =
     (case outage db of
        Some e \<Rightarrow> db
      | None \<Rightarrow> db\<lparr>bot_sessions := AList.update (t, c) s (bot_sessions db)\<rparr>)"

text \<open>
  A Telegraf instance. \<^verbatim>\<open>bot.launch()\<close> is not awaited: it returns a promise and the
  instance is \<open>Launching\<close> until the promise settles, some time after the call, when
  the instance starts to poll (\<open>Polling\<close>) or the launch is rejected (\<open>Failed\<close>).
  \<open>Stopped\<close> is an instance whose polling was ended by \<^verbatim>\<open>stop()\<close>.
\<close>

datatype telegraf = Launching | Polling | Stopped | Failed

text \<open>
  The process: the session cache (a \<^verbatim>\<open>Map\<close> from \<^verbatim>\<open>"tenantId_chatId"\<close> to an entry),
  the store, the Telegraf instances created so far (a handle is an index into the list)
  and the registry \<^verbatim>\<open>activeBots\<close>, a \<^verbatim>\<open>Map\<close> from tenant id to instance, kept as the
  list of its entries.
\<close>

record server =
  sessionCache :: "string \<rightharpoonup> cache_entry"
  supabase :: database
  telegrafs :: "telegraf list"
  activeBots :: "(nat \<times> nat) list"

definition CACHE_TTL :: int where
  "CACHE_TTL = 5 * 60 * 1000"

definition cacheKey :: "nat \<Rightarrow> int \<Rightarrow> string" where
  "cacheKey tenantId chatId = String_js (int tenantId) @ ''_'' @ String_js chatId"

subsection \<open>saveSession and getSession\<close>

text \<open>\<open>now\<close> is the value \<^verbatim>\<open>Date.now()\<close> gives inside the call.\<close>

definition saveSession :: "server \<Rightarrow> timestamp \<Rightarrow> nat \<Rightarrow> int \<Rightarrow> session \<Rightarrow> server" where
  "saveSession srv now tenantId chatId sessionData =
     srv\<lparr>sessionCache :=
           (sessionCache srv)(cacheKey tenantId chatId \<mapsto> \<lparr>data = sessionData, timestamp = now\<rparr>),
         supabase := upsert_session (supabase srv) tenantId (String_js chatId) sessionData\<rparr>"

definition default_session :: session where
  "default_session =
     \<lparr>stage = Some ''START'', isVip = Some False,
      whatsapp = Some \<lparr>instances = Some [], maxInstances = Some 1\<rparr>,
      affiliate = Some \<lparr>balance = 0, totalEarned = 0, referralsCount = 0\<rparr>,
      reports = Some [], temp_sync_id = None, temp_openai_key = None\<rparr>"

text \<open>The three repairs made on a row that was read (``auto-healing properties'').\<close>

definition heal :: "session \<Rightarrow> session" where
  "heal sessionObj =
     (let s1 = (if whatsapp sessionObj = None
                then sessionObj\<lparr>whatsapp := Some \<lparr>instances = Some [], maxInstances = Some 1\<rparr>\<rparr>
                else sessionObj);
          s2 = (if affiliate s1 = None
                then s1\<lparr>affiliate := Some \<lparr>balance = 0, totalEarned = 0, referralsCount = 0\<rparr>\<rparr>
                else s1)
      in if \<not> truthy (stage s2) then s2\<lparr>stage := Some ''READY''\<rparr> else s2)"

text \<open>
  \<open>getSession\<close> returns \<open>Inl error\<close> where the source throws the error of the read.
  The default session is saved by an inner \<open>saveSession\<close>, whose own clock reading is
  overwritten at once by the final \<^verbatim>\<open>sessionCache.set\<close> with \<open>now\<close>.
\<close>

definition getSession ::
  "server \<Rightarrow> timestamp \<Rightarrow> nat \<Rightarrow> int \<Rightarrow> (pg_error + session) \<times> server" where
  "getSession srv now tenantId chatId =
     (let key = cacheKey tenantId chatId;
          hit = (case sessionCache srv key of
                   None \<Rightarrow> None
                 | Some cached \<Rightarrow>
                     if now - timestamp cached < CACHE_TTL then Some (data cached) else None)
      in case hit of
           Some d \<Rightarrow> (Inr d, srv)
         | None \<Rightarrow>
             (case select_session (supabase srv) tenantId (String_js chatId) of
                ((row, error), db') \<Rightarrow>
                  (let srv1 = srv\<lparr>supabase := db'\<rparr>;
                       fatal = (case error of
                                  None \<Rightarrow> None
                                | Some e \<Rightarrow> if code e \<noteq> ''PGRST116'' then Some e else None)
                   in case fatal of
                        Some e \<Rightarrow> (Inl e, srv1)
                      | None \<Rightarrow>
                          (let (sessionObj, srv2) =
                                 (case row of
                                    Some r \<Rightarrow> (heal r, srv1)
                                  | None \<Rightarrow>
                                      (default_session,
                                       saveSession srv1 now tenantId chatId default_session))
                           in (Inr sessionObj,
                               srv2\<lparr>sessionCache :=
                                      (sessionCache srv2)
                                        (key \<mapsto> \<lparr>data = sessionObj, timestamp = now\<rparr>)\<rparr>)))))"

section \<open>Tenant bots\<close>

subsection \<open>The registry and startTenantBot\<close>

text \<open>
  \<^verbatim>\<open>Map.prototype.has\<close>, \<^verbatim>\<open>get\<close> and \<^verbatim>\<open>set\<close> on the list of entries: \<^verbatim>\<open>set\<close> replaces
  the value of a key that is present, in place, and appends a new entry otherwise.
\<close>

definition map_has :: "('k \<times> 'v) list \<Rightarrow> 'k \<Rightarrow> bool" where
  "map_has m k = (map_of m k \<noteq> None)"

fun map_set :: "('k \<times> 'v) list \<Rightarrow> 'k \<Rightarrow> 'v \<Rightarrow> ('k \<times> 'v) list" where
  "map_set [] k v = [(k, v)]"
| "map_set ((k', v') # m) k v =
     (if k' = k then (k, v) # m else (k', v') # map_set m k v)"

text \<open>
  \<^verbatim>\<open>bot.stop()\<close> of Telegraf ends the polling of an instance that polls. On an
  instance that has no polling yet (its launch has not settled, or was rejected) it
  throws, and leaves the launch to go on.
\<close>

definition telegraf_stop :: "telegraf list \<Rightarrow> nat \<Rightarrow> string + telegraf list" where
  "telegraf_stop ts h =
     (if h < length ts \<and> (ts ! h = Polling \<or> ts ! h = Stopped)
      then Inr (ts[h := Stopped])
      else Inl ''Bot is not running!'')"

text \<open>
  The promise of the launch of instance \<open>h\<close> settles, after the call that made it has
  returned: \<open>Some True\<close> when the instance starts to poll, \<open>Some False\<close> when the
  launch is rejected; \<open>None\<close> stands for a launch that has not settled yet.
\<close>

definition launch_settles :: "server \<Rightarrow> nat \<Rightarrow> bool option \<Rightarrow> server" where
  "launch_settles srv h outcome =
     (case outcome of
        None \<Rightarrow> srv
      | Some ok \<Rightarrow>
          if h < length (telegrafs srv) \<and> telegrafs srv ! h = Launching
          then srv\<lparr>telegrafs := (telegrafs srv)[h := if ok then Polling else Failed]\<rparr>
          else srv)"

text \<open>
  \<^verbatim>\<open>select('chat_id', {count: 'exact', head: true}).eq('tenant_id', t)\<close>, and
  \<^verbatim>\<open>error ? 0 : count\<close>.
\<close>

definition getTenantUserCount :: "database \<Rightarrow> nat \<Rightarrow> nat \<times> database" where
  "getTenantUserCount db tenantId =
     (let db' = db\<lparr>selects := Suc (selects db)\<rparr> in
      case outage db of
        Some e \<Rightarrow> (0, db')
      | None \<Rightarrow> (length (filter (\<lambda>row. fst (fst row) = tenantId) (bot_sessions db)), db'))"

definition checkUserExists :: "database \<Rightarrow> nat \<Rightarrow> int \<Rightarrow> bool \<times> database" where
  "checkUserExists db tenantId chatId =
     (case select_session db tenantId (String_js chatId) of
        ((row, error), db') \<Rightarrow> (row \<noteq> None, db'))"

text \<open>
  \<open>startTenantBot\<close>, as far as the registry goes: the stop of a registered instance
  inside \<^verbatim>\<open>try { } catch (e) { }\<close>, the user count, the new Telegraf instance, the
  call of its launch, which is not awaited, and \<^verbatim>\<open>activeBots.set\<close>. It returns the
  tenant object, which the handlers of the new instance share, and the process state.
\<close>

definition startTenantBot :: "server \<Rightarrow> tenant \<Rightarrow> tenant \<times> server" where
  "startTenantBot srv tenant =
     (let srv1 =
            (if map_has (activeBots srv) (tenant_id tenant)
             then (case map_of (activeBots srv) (tenant_id tenant) of
                     None \<Rightarrow> srv
                   | Some old \<Rightarrow>
                       (case telegraf_stop (telegrafs srv) old of
                          Inl e \<Rightarrow> srv
                        | Inr ts \<Rightarrow> srv\<lparr>telegrafs := ts\<rparr>))
             else srv);
          (initialUserCount, db') = getTenantUserCount (supabase srv1) (tenant_id tenant);
          tenant' = tenant\<lparr>activeUserCount := int initialUserCount\<rparr>;
          bot = length (telegrafs srv1)
      in (tenant',
          srv1\<lparr>supabase := db',
               telegrafs := telegrafs srv1 @ [Launching],
               activeBots := map_set (activeBots srv1) (tenant_id tenant) bot\<rparr>))"

subsection \<open>The middleware of a tenant bot\<close>

text \<open>
  What the handlers of one bot share: the tenant object captured by the closures of
  \<open>startTenantBot\<close>, and the process state.
\<close>

record bot_state =
  tenant :: tenant
  server :: server

text \<open>
  The replies of a tenant bot, by the message they send: the plan-expired notice, the
  limit notice with the limit it prints, and the messages of the owner's wizard.
\<close>

datatype reply =
    PlanExpired
  | LimitReached int
  | Cancelled
  | Dashboard
  | AskSyncpaySecret
  | SyncpayConfigured
  | InvalidKey
  | ChooseModel
  | PromptDefined
  | SessionExpired
  | ModelConfigured string
  | ErrorReply string

text \<open>
  The middleware ends in one of three ways: it answers and returns without \<^verbatim>\<open>next()\<close>,
  it calls \<^verbatim>\<open>next()\<close> with the session loaded into the context, or the error thrown
  by \<open>getSession\<close> leaves it.
\<close>

datatype gate = Refused reply | Admitted session | Threw pg_error

text \<open>\<^verbatim>\<open>tenant.max_users || 10\<close>\<close>

definition maxUsers_of :: "tenant \<Rightarrow> int" where
  "maxUsers_of tn =
     (case max_users tn of None \<Rightarrow> 10 | Some m \<Rightarrow> if m = 0 then 10 else m)"

text \<open>
  The clock readings of one event (\<^verbatim>\<open>new Date()\<close> of the expiration check and
  \<^verbatim>\<open>Date.now()\<close> of \<open>getSession\<close>) are one instant \<open>now\<close>; \<open>chatId\<close> is
  \<^verbatim>\<open>ctx.chat.id\<close>.
\<close>

definition tenant_middleware :: "bot_state \<Rightarrow> timestamp \<Rightarrow> int \<Rightarrow> gate \<times> bot_state" where
  "tenant_middleware st now chatId =
     (if (case expiration_date (tenant st) of
            None \<Rightarrow> False
          | Some expiration \<Rightarrow>
              now > expiration \<and> Some (String_js chatId) \<noteq> owner_chat_id (tenant st))
      then (Refused PlanExpired, st)
      else
        (let (limit, st1) =
               (if Some (String_js chatId) \<noteq> owner_chat_id (tenant st)
                then
                  (if sessionCache (server st) (cacheKey (tenant_id (tenant st)) chatId) \<noteq> None
                   then (None, st)
                   else
                     (case checkUserExists (supabase (server st)) (tenant_id (tenant st)) chatId of
                        (existsInDb, db') \<Rightarrow>
                          (let st0 = st\<lparr>server := (server st)\<lparr>supabase := db'\<rparr>\<rparr> in
                           if \<not> existsInDb
                           then
                             (let maxUsers = maxUsers_of (tenant st) in
                              if activeUserCount (tenant st) \<ge> maxUsers
                              then (Some (LimitReached maxUsers), st0)
                              else (None,
                                    st0\<lparr>tenant := (tenant st)
                                      \<lparr>activeUserCount := activeUserCount (tenant st) + 1\<rparr>\<rparr>))
                           else (None, st0))))
                else (None, st))
         in case limit of
              Some r \<Rightarrow> (Refused r, st1)
            | None \<Rightarrow>
                (case getSession (server st1) now (tenant_id (tenant st1)) chatId of
                   (Inl e, srv') \<Rightarrow> (Threw e, st1\<lparr>server := srv'\<rparr>)
                 | (Inr s, srv') \<Rightarrow> (Admitted s, st1\<lparr>server := srv'\<rparr>))))"

subsection \<open>The owner's wizard\<close>

text \<open>
  \<^verbatim>\<open>supabase.from('tenants').update(fields).eq('id', id)\<close>: the error, if any, and the
  store. A tenant row carries \<open>activeUserCount\<close> only because it shares the record of
  the tenant object; no update touches it.
\<close>

definition update_tenant ::
  "database \<Rightarrow> nat \<Rightarrow> (tenant \<Rightarrow> tenant) \<Rightarrow> pg_error option \<times> database" where
  "update_tenant db i f =
     (case outage db of
        Some e \<Rightarrow> (Some e, db)
      | None \<Rightarrow>
          (None, (case tenants db i of
                    None \<Rightarrow> db
                  | Some row \<Rightarrow> db\<lparr>tenants := (tenants db)(i \<mapsto> f row)\<rparr>)))"

definition isOwner :: "tenant \<Rightarrow> int \<Rightarrow> bool" where
  "isOwner tn chatId = (String_js chatId = String_opt (owner_chat_id tn))"

definition renderOwnerDashboard :: "tenant \<Rightarrow> int \<Rightarrow> reply list" where
  "renderOwnerDashboard tn chatId = (if \<not> isOwner tn chatId then [] else [Dashboard])"

text \<open>\<^verbatim>\<open>ctx.save()\<close>, the closure the middleware puts into the context.\<close>

definition ctx_save :: "bot_state \<Rightarrow> timestamp \<Rightarrow> int \<Rightarrow> session \<Rightarrow> bot_state" where
  "ctx_save st now chatId sess =
     st\<lparr>server := saveSession (server st) now (tenant_id (tenant st)) chatId sess\<rparr>"

text \<open>Whether a handler hands the update on with \<^verbatim>\<open>next()\<close> or returns.\<close>

datatype flow = CallNext | Return

text \<open>
  The first \<^verbatim>\<open>bot.on("text")\<close> handler. \<open>sess\<close> is \<^verbatim>\<open>ctx.session\<close> and \<open>txt\<close> is
  \<^verbatim>\<open>ctx.message.text\<close>; the result holds the replies sent, in order, the session object
  as the handler leaves it and the state. (A \<^verbatim>\<open>temp_sync_id\<close> that is absent is written
  as \<^verbatim>\<open>null\<close>.)
\<close>

definition owner_text ::
  "bot_state \<Rightarrow> timestamp \<Rightarrow> int \<Rightarrow> session \<Rightarrow> string
     \<Rightarrow> flow \<times> reply list \<times> session \<times> bot_state" where
  "owner_text st now chatId sess txt =
     (if \<not> isOwner (tenant st) chatId then (CallNext, [], sess, st)
      else if startsWith txt ''/'' \<and> txt \<noteq> ''/cancelar'' then (CallNext, [], sess, st)
      else if txt = ''/cancelar'' then
        (let sess' = sess\<lparr>stage := Some ''READY''\<rparr>;
             st' = ctx_save st now chatId sess'
         in (Return, Cancelled # renderOwnerDashboard (tenant st') chatId, sess', st'))
      else if stage sess = Some ''OWNER_WAIT_SYNCPAY_ID'' then
        (let sess' = sess\<lparr>temp_sync_id := Some (trim txt),
                          stage := Some ''OWNER_WAIT_SYNCPAY_SECRET''\<rparr>;
             st' = ctx_save st now chatId sess'
         in (Return, [AskSyncpaySecret], sess', st'))
      else if stage sess = Some ''OWNER_WAIT_SYNCPAY_SECRET'' then
        (let secret = trim txt;
             clientId = temp_sync_id sess
         in case update_tenant (supabase (server st)) (tenant_id (tenant st))
                   (\<lambda>row. row\<lparr>syncpay_client_id := clientId,
                               syncpay_client_secret := Some secret\<rparr>) of
              (Some e, db') \<Rightarrow>
                (Return, [ErrorReply (message e)], sess,
                 st\<lparr>server := (server st)\<lparr>supabase := db'\<rparr>\<rparr>)
            | (None, db') \<Rightarrow>
                (let sess' = sess\<lparr>stage := Some ''READY'', temp_sync_id := None\<rparr>;
                     st1 = ctx_save (st\<lparr>server := (server st)\<lparr>supabase := db'\<rparr>\<rparr>)
                             now chatId sess';
                     st2 = st1\<lparr>tenant := (tenant st1)
                             \<lparr>syncpay_client_id := clientId,
                              syncpay_client_secret := Some secret\<rparr>\<rparr>
                 in (Return, SyncpayConfigured # renderOwnerDashboard (tenant st2) chatId,
                     sess', st2)))
      else if stage sess = Some ''OWNER_WAIT_OPENAI_KEY'' then
        (let key = trim txt
         in if \<not> startsWith key ''sk-'' then (Return, [InvalidKey], sess, st)
            else
              (let sess' = sess\<lparr>temp_openai_key := Some key,
                                stage := Some ''OWNER_WAIT_OPENAI_MODEL''\<rparr>;
                   st' = ctx_save st now chatId sess'
               in (Return, [ChooseModel], sess', st')))
      else if stage sess = Some ''OWNER_WAIT_PROMPT'' then
        (let prompt = trim txt
         in case update_tenant (supabase (server st)) (tenant_id (tenant st))
                   (\<lambda>row. row\<lparr>system_prompt := Some prompt\<rparr>) of
              (Some e, db') \<Rightarrow>
                (Return, [ErrorReply (message e)], sess,
                 st\<lparr>server := (server st)\<lparr>supabase := db'\<rparr>\<rparr>)
            | (None, db') \<Rightarrow>
                (let st1 = st\<lparr>server := (server st)\<lparr>supabase := db'\<rparr>,
                              tenant := (tenant st)\<lparr>system_prompt := Some prompt\<rparr>\<rparr>;
                     sess' = sess\<lparr>stage := Some ''READY''\<rparr>;
                     st2 = ctx_save st1 now chatId sess'
                 in (Return, PromptDefined # renderOwnerDashboard (tenant st2) chatId,
                     sess', st2)))
      else (CallNext, [], sess, st))"

text \<open>
  \<open>saveModel\<close>, run by the three \<^verbatim>\<open>set_model_*\<close> buttons with the name of the model.
\<close>

definition saveModel ::
  "bot_state \<Rightarrow> timestamp \<Rightarrow> int \<Rightarrow> session \<Rightarrow> string \<Rightarrow> reply list \<times> session \<times> bot_state" where
  "saveModel st now chatId sess modelName =
     (let key = temp_openai_key sess
      in if \<not> truthy key then ([SessionExpired], sess, st)
         else
           (case update_tenant (supabase (server st)) (tenant_id (tenant st))
                   (\<lambda>row. row\<lparr>openai_api_key := key, openai_model := Some modelName\<rparr>) of
              (Some e, db') \<Rightarrow>
                ([ErrorReply (message e)], sess, st\<lparr>server := (server st)\<lparr>supabase := db'\<rparr>\<rparr>)
            | (None, db') \<Rightarrow>
                (let sess' = sess\<lparr>stage := Some ''READY'', temp_openai_key := None\<rparr>;
                     st1 = ctx_save (st\<lparr>server := (server st)\<lparr>supabase := db'\<rparr>\<rparr>)
                             now chatId sess';
                     st2 = st1\<lparr>tenant := (tenant st1)
                             \<lparr>openai_api_key := key, openai_model := Some modelName\<rparr>\<rparr>
                 in (ModelConfigured modelName # renderOwnerDashboard (tenant st2) chatId,
                     sess', st2))))"

section \<open>The payment webhook\<close>

text \<open>
  The body of \<^verbatim>\<open>POST /webhook/master\<close>: the properties the handler reads, at the top
  level (\<open>top\<close>) or in the object under \<^verbatim>\<open>data\<close>.
\<close>

record client =
  email :: "string option"

record payload =
  payment_id :: "string option"
  status :: "string option"
  client :: "client option"
  external_id :: "string option"

record body =
  data_prop :: "payload option"
  top :: payload

definition isDigit :: "char \<Rightarrow> bool" where
  "isDigit c = (c \<in> set ''0123456789'')"

text \<open>
  \<^verbatim>\<open>s.match(/tenant_(\d+)@/)\<close>, as its first group: at the leftmost place where
  \<^verbatim>\<open>tenant_\<close> is followed by a non-empty run of digits and \<^verbatim>\<open>@\<close>, the run.
\<close>

fun match_tenant_email :: "string \<Rightarrow> string option" where
  "match_tenant_email [] = None"
| "match_tenant_email (c # cs) =
     (let rest = drop 7 (c # cs);
          ds = takeWhile isDigit rest
      in if startsWith (c # cs) ''tenant_'' \<and> ds \<noteq> [] \<and> startsWith (dropWhile isDigit rest) ''@''
         then Some ds
         else match_tenant_email cs)"

text \<open>
  \<^verbatim>\<open>s.split("SUB_")[1]\<close> of a string that starts with \<^verbatim>\<open>SUB_\<close>: what follows the
  prefix, up to the next \<^verbatim>\<open>SUB_\<close>.
\<close>

fun upto_SUB :: "string \<Rightarrow> string" where
  "upto_SUB [] = []"
| "upto_SUB (c # cs) = (if startsWith (c # cs) ''SUB_'' then [] else c # upto_SUB cs)"

text \<open>
  The \<^verbatim>\<open>id\<close> column is an integer and the handler filters it by a string, which the
  store reads as a decimal number; a string that is none is an error of the request.
\<close>

definition read_nat :: "string \<Rightarrow> nat" where
  "read_nat s = foldl (\<lambda>a c. 10 * a + (of_char c - 48)) 0 s"

definition parse_id :: "string \<Rightarrow> nat option" where
  "parse_id s = (if s \<noteq> [] \<and> list_all isDigit s then Some (read_nat s) else None)"

definition invalid_input :: pg_error where
  "invalid_input = \<lparr>code = ''22P02'', message = ''invalid input syntax for type bigint''\<rparr>"

text \<open>\<^verbatim>\<open>supabase.from('tenants').select('*').eq('id', tenantId).single()\<close>\<close>

definition select_tenant ::
  "database \<Rightarrow> string \<Rightarrow> (tenant option \<times> pg_error option) \<times> database" where
  "select_tenant db idText =
     (let db' = db\<lparr>selects := Suc (selects db)\<rparr> in
      case outage db of
        Some e \<Rightarrow> ((None, Some e), db')
      | None \<Rightarrow>
          (case parse_id idText of
             None \<Rightarrow> ((None, Some invalid_input), db')
           | Some i \<Rightarrow>
               (case tenants db i of
                  None \<Rightarrow> ((None, Some PGRST116), db')
                | Some row \<Rightarrow> ((Some row, None), db'))))"

definition update_tenant_text ::
  "database \<Rightarrow> string \<Rightarrow> (tenant \<Rightarrow> tenant) \<Rightarrow> pg_error option \<times> database" where
  "update_tenant_text db idText f =
     (case parse_id idText of
        None \<Rightarrow> (Some invalid_input, db)
      | Some i \<Rightarrow> update_tenant db i f)"

text \<open>
  The time zone of the process, as ECMAScript reads it: the offset of local time from
  UTC, in milliseconds, at an instant (\<^verbatim>\<open>LocalTZA(t, true)\<close>) and at a local time
  (\<^verbatim>\<open>LocalTZA(t, false)\<close>).
\<close>

record zone =
  LocalTZA_utc :: "timestamp \<Rightarrow> int"
  LocalTZA_local :: "timestamp \<Rightarrow> int"

text \<open>
  \<^verbatim>\<open>d.setDate(d.getDate() + n)\<close> moves a date by \<open>n\<close> calendar days of the local zone:
  the instant is read as a local time, the day of that local time moves by \<open>n\<close>, the
  time within the day stays, and the local time so made is read back as an instant.
\<close>

definition setDate_plus :: "zone \<Rightarrow> timestamp \<Rightarrow> int \<Rightarrow> timestamp" where
  "setDate_plus tz d n =
     (let t = d + LocalTZA_utc tz d;
          newDate = t + n * 86400000
      in newDate - LocalTZA_local tz newDate)"

text \<open>
  A response is its HTTP status and its JSON body. \<open>new_expiration\<close> is an ISO string
  in the source and the instant it denotes here.
\<close>

datatype json_body =
    IgnoredBody string
  | ErrorBody string
  | SuccessBody timestamp

text \<open>
  The two ways in which the handler finds the tenant id in the payload, in its order:
  the e-mail of the client, then \<^verbatim>\<open>external_id\<close>.
\<close>

definition tenantId_of :: "payload \<Rightarrow> string option" where
  "tenantId_of pl =
     (let fromEmail =
            (case client pl of
               None \<Rightarrow> None
             | Some c \<Rightarrow>
                 (case email c of
                    None \<Rightarrow> None
                  | Some e \<Rightarrow> if e \<noteq> [] then match_tenant_email e else None))
      in if \<not> truthy fromEmail \<and> truthy (external_id pl)
              \<and> startsWith (String_opt (external_id pl)) ''SUB_''
         then Some (upto_SUB (drop 4 (String_opt (external_id pl))))
         else fromEmail)"

text \<open>
  The e-mail under which \<open>generateSubscriptionCharge\<close> registers the charge of a
  tenant: \<^verbatim>\<open>`tenant_${tenant.id}@venux.com`\<close>.
\<close>

definition subscription_email :: "tenant \<Rightarrow> string" where
  "subscription_email tn = ''tenant_'' @ String_js (int (tenant_id tn)) @ ''@venux.com''"

text \<open>\<^verbatim>\<open>req.body.data || req.body\<close>\<close>

definition payload_of :: "body \<Rightarrow> payload" where
  "payload_of req = (case data_prop req of Some p \<Rightarrow> p | None \<Rightarrow> top req)"

text \<open>The three statuses that stand for a payment received.\<close>

definition eligible :: "string option \<Rightarrow> bool" where
  "eligible st = (\<not> (st \<noteq> Some ''completed'' \<and> st \<noteq> Some ''PAID'' \<and> st \<noteq> Some ''RECEIVED''))"

text \<open>
  The handler, in a process of zone \<open>tz\<close>, returns the response, the notifications
  handed to Telegram (instance, chat, new expiration; their failures are only logged)
  and the state. Nothing in the
  \<^verbatim>\<open>try\<close> block throws, since the client returns its errors, so the 500 answer of the
  \<^verbatim>\<open>catch\<close> has no branch.
\<close>

definition webhook_master ::
  "zone \<Rightarrow> server \<Rightarrow> timestamp \<Rightarrow> body
     \<Rightarrow> (nat \<times> json_body) \<times> (nat \<times> string \<times> timestamp) list \<times> server" where
  "webhook_master tz srv now req =
     (let pl = payload_of req in
      if \<not> eligible (status pl)
      then ((200, IgnoredBody (''Status '' @ (case status pl of None \<Rightarrow> ''undefined'' | Some x \<Rightarrow> x)
                                @ '' not eligible'')), [], srv)
      else
        (let tenantId = tenantId_of pl
         in if \<not> truthy tenantId
            then ((400, ErrorBody ''Tenant ID not found in payload''), [], srv)
            else
              (case select_tenant (supabase srv) (String_opt tenantId) of
                 ((None, fetchError), db1) \<Rightarrow>
                   ((404, ErrorBody ''Tenant not found''), [], srv\<lparr>supabase := db1\<rparr>)
               | ((Some tn, Some e), db1) \<Rightarrow>
                   ((404, ErrorBody ''Tenant not found''), [], srv\<lparr>supabase := db1\<rparr>)
               | ((Some tn, None), db1) \<Rightarrow>
                   (let baseDate =
                          (case expiration_date tn of
                             None \<Rightarrow> now
                           | Some e \<Rightarrow> if e > now then e else now);
                        newExpiration = setDate_plus tz baseDate 30;
                        db2 = snd (update_tenant_text db1 (String_opt tenantId)
                                     (\<lambda>row. row\<lparr>expiration_date := Some newExpiration,
                                                 is_active := True\<rparr>));
                        notes =
                          (if map_has (activeBots srv) (tenant_id tn)
                           then (case map_of (activeBots srv) (tenant_id tn) of
                                   None \<Rightarrow> []
                                 | Some botInstance \<Rightarrow>
                                     if truthy (owner_chat_id tn)
                                     then [(botInstance, String_opt (owner_chat_id tn),
                                            newExpiration)]
                                     else [])
                           else [])
                    in ((200, SuccessBody newExpiration), notes, srv\<lparr>supabase := db2\<rparr>)))))"

section \<open>The master bot\<close>

text \<open>
  An update is a message of a chat, with its text if it has one, or the press of an
  inline button with its callback data.
\<close>

datatype update = Message int "string option" | CallbackQuery int string

fun chat_id :: "update \<Rightarrow> int" where
  "chat_id (Message c t) = c"
| "chat_id (CallbackQuery c d) = c"

fun message_text :: "update \<Rightarrow> string option" where
  "message_text (Message c t) = t"
| "message_text (CallbackQuery c d) = None"

text \<open>
  The security middleware, with the value of \<^verbatim>\<open>MASTER_ADMIN_ID\<close>: it calls
  \<^verbatim>\<open>next()\<close>, replies with the configuration warning, or logs and returns.
\<close>

datatype guard = PassOn | Warn | Deny

definition master_security :: "string option \<Rightarrow> update \<Rightarrow> guard" where
  "master_security MASTER_ADMIN_ID upd =
     (if message_text upd = Some ''/meu_id'' then PassOn
      else if \<not> truthy MASTER_ADMIN_ID then Warn
      else if String_js (chat_id upd) \<noteq> String_opt MASTER_ADMIN_ID then Deny
      else PassOn)"

text \<open>
  The handlers of the master bot, in the order in which the source registers them.
  Telegraf composes them in that order, and none of them takes or calls \<^verbatim>\<open>next\<close>: the
  first handler whose trigger matches the update runs, and the update goes no further.
\<close>

datatype master_handler =
    Cmd_start
  | Act_list_tenants
  | Act_cmd_set_global_price
  | Act_manage_tenant
  | Act_cmd_limit
  | Act_cmd_price
  | Act_cmd_renew
  | Act_cmd_toggle_active
  | Act_new_tenant_start
  | On_text
  | Cmd_meu_id

definition master_handlers :: "master_handler list" where
  "master_handlers =
     [Cmd_start, Act_list_tenants, Act_cmd_set_global_price, Act_manage_tenant,
      Act_cmd_limit, Act_cmd_price, Act_cmd_renew, Act_cmd_toggle_active,
      Act_new_tenant_start, On_text, Cmd_meu_id]"

text \<open>
  The triggers. \<^verbatim>\<open>command(c)\<close> takes a text message that begins with the command
  \<^verbatim>\<open>/c\<close> (the form \<^verbatim>\<open>/c@bot\<close> is left out), \<^verbatim>\<open>on("text")\<close> every text message,
  \<^verbatim>\<open>action(s)\<close> a button press whose data is \<open>s\<close>, and \<^verbatim>\<open>action(/p(.+)/)\<close> one whose
  data holds \<open>p\<close> followed by a character that is no line break.
\<close>

definition is_command :: "string \<Rightarrow> string option \<Rightarrow> bool" where
  "is_command c t =
     (case t of
        None \<Rightarrow> False
      | Some txt \<Rightarrow> takeWhile (\<lambda>x. x \<noteq> CHR '' '') txt = CHR ''/'' # c)"

fun holds_then_more :: "string \<Rightarrow> string \<Rightarrow> bool" where
  "holds_then_more p [] = False"
| "holds_then_more p (c # cs) =
     ((startsWith (c # cs) p \<and>
       (case drop (length p) (c # cs) of
          [] \<Rightarrow> False
        | x # xs \<Rightarrow> of_char x \<notin> {10, 13 :: nat}))
      \<or> holds_then_more p cs)"

fun triggers :: "master_handler \<Rightarrow> update \<Rightarrow> bool" where
  "triggers Cmd_start (Message c t) = is_command ''start'' t"
| "triggers Cmd_meu_id (Message c t) = is_command ''meu_id'' t"
| "triggers On_text (Message c t) = (t \<noteq> None)"
| "triggers h (Message c t) = False"
| "triggers Act_list_tenants (CallbackQuery c d) = (d = ''list_tenants'')"
| "triggers Act_cmd_set_global_price (CallbackQuery c d) = (d = ''cmd_set_global_price'')"
| "triggers Act_manage_tenant (CallbackQuery c d) = holds_then_more ''manage_tenant_'' d"
| "triggers Act_cmd_limit (CallbackQuery c d) = holds_then_more ''cmd_limit_'' d"
| "triggers Act_cmd_price (CallbackQuery c d) = holds_then_more ''cmd_price_'' d"
| "triggers Act_cmd_renew (CallbackQuery c d) = holds_then_more ''cmd_renew_'' d"
| "triggers Act_cmd_toggle_active (CallbackQuery c d) = holds_then_more ''cmd_toggle_active_'' d"
| "triggers Act_new_tenant_start (CallbackQuery c d) = (d = ''new_tenant_start'')"
| "triggers h (CallbackQuery c d) = False"

text \<open>What becomes of an update: which handler runs, if the middleware lets it pass.\<close>

datatype master_result = Warned | Dropped | Unhandled | Handled master_handler

definition master_bot :: "string option \<Rightarrow> update \<Rightarrow> master_result" where
  "master_bot MASTER_ADMIN_ID upd =
     (case master_security MASTER_ADMIN_ID upd of
        Warn \<Rightarrow> Warned
      | Deny \<Rightarrow> Dropped
      | PassOn \<Rightarrow>
          (case find (\<lambda>h. triggers h upd) master_handlers of
             None \<Rightarrow> Unhandled
           | Some h \<Rightarrow> Handled h))"

text \<open>
  The two handlers a text \<^verbatim>\<open>/meu_id\<close> can reach. The text handler returns at once
  when the chat has no wizard session in \<^verbatim>\<open>masterSessions\<close> (a map from chat id to the
  stage of its wizard); otherwise it cancels the wizard or runs the step of the
  stage, which is not followed further here. The command handler replies with the id of the chat.
\<close>

datatype text_outcome = NoSession | WizardCancelled | WizardStep string

definition master_on_text :: "(int \<rightharpoonup> string) \<Rightarrow> int \<Rightarrow> string \<Rightarrow> text_outcome" where
  "master_on_text masterSessions chatId txt =
     (case masterSessions chatId of
        None \<Rightarrow> NoSession
      | Some stg \<Rightarrow> if trim txt = ''/cancelar'' then WizardCancelled else WizardStep stg)"

definition master_meu_id :: "int \<Rightarrow> string" where
  "master_meu_id chatId = ''Seu ID: '' @ String_js chatId"

section \<open>Successive events, predicates and sample states\<close>

text \<open>The events of one bot, each with its clock reading and chat, handled one after another.\<close>

fun run_events :: "bot_state \<Rightarrow> (timestamp \<times> int) list \<Rightarrow> gate list \<times> bot_state" where
  "run_events st [] = ([], st)"
| "run_events st ((now, chatId) # es) =
     (case tenant_middleware st now chatId of
        (g, st') \<Rightarrow> (case run_events st' es of (gs, st'') \<Rightarrow> (g # gs, st'')))"

text \<open>
  A user is new for the quota: no entry in the session cache and no row in the store.
\<close>

definition new_user :: "bot_state \<Rightarrow> int \<Rightarrow> bool" where
  "new_user st chatId =
     (sessionCache (server st) (cacheKey (tenant_id (tenant st)) chatId) = None \<and>
      map_of (bot_sessions (supabase (server st))) (tenant_id (tenant st), String_js chatId) = None)"

text \<open>The cache has no entry for the key that is younger than the time to live.\<close>

definition cache_miss :: "server \<Rightarrow> timestamp \<Rightarrow> string \<Rightarrow> bool" where
  "cache_miss srv now key =
     (case sessionCache srv key of
        None \<Rightarrow> True
      | Some cached \<Rightarrow> \<not> now - timestamp cached < CACHE_TTL)"

text \<open>
  Structural completeness as the specification lists it: the stage, the list of
  messaging instances and the report bag are present.
\<close>

definition complete_per_spec :: "session \<Rightarrow> bool" where
  "complete_per_spec s =
     (stage s \<noteq> None \<and>
      (case whatsapp s of None \<Rightarrow> False | Some w \<Rightarrow> instances w \<noteq> None) \<and>
      reports s \<noteq> None)"

text \<open>
  Sample states: an empty store and process; a stored session written without a report
  bag; tenant 7, owned by chat 1000, limited to one user, expired at instant 500 and
  inactive; bots of that tenant; sessions in the middle of the key wizard; webhook bodies.
\<close>

definition empty_db :: database where
  "empty_db = \<lparr>tenants = Map.empty, bot_sessions = [], outage = None, selects = 0\<rparr>"

definition empty_server :: server where
  "empty_server = \<lparr>sessionCache = Map.empty, supabase = empty_db, telegrafs = [], activeBots = []\<rparr>"

definition row_without_reports :: session where
  "row_without_reports =
     \<lparr>stage = Some ''READY'', isVip = Some False,
      whatsapp = Some \<lparr>instances = Some [], maxInstances = Some 1\<rparr>,
      affiliate = Some \<lparr>balance = 0, totalEarned = 0, referralsCount = 0\<rparr>,
      reports = None, temp_sync_id = None, temp_openai_key = None\<rparr>"

definition server_with_old_row :: server where
  "server_with_old_row =
     empty_server\<lparr>supabase := empty_db\<lparr>bot_sessions := [((7, ''42''), row_without_reports)]\<rparr>\<rparr>"

definition conn_error :: pg_error where
  "conn_error = \<lparr>code = ''08006'', message = ''connection failure''\<rparr>"

definition server_down :: server where
  "server_down = empty_server\<lparr>supabase := empty_db\<lparr>outage := Some conn_error\<rparr>\<rparr>"

definition tenant7 :: tenant where
  "tenant7 =
     \<lparr>tenant_id = 7, name = ''Loja'', telegram_token = ''123:abc'',
      owner_chat_id = Some ''1000'', is_active = False, expiration_date = Some 500,
      max_users = Some 1, syncpay_client_id = None, syncpay_client_secret = None,
      openai_api_key = None, openai_model = None, system_prompt = None,
      activeUserCount = 0\<rparr>"

definition bot7 :: bot_state where
  "bot7 = \<lparr>tenant = tenant7, server = empty_server\<rparr>"

definition bot7_full :: bot_state where
  "bot7_full = \<lparr>tenant = tenant7\<lparr>activeUserCount := 1\<rparr>, server = empty_server\<rparr>"

definition bot7_unlimited :: bot_state where
  "bot7_unlimited = \<lparr>tenant = tenant7\<lparr>max_users := Some 0, expiration_date := None\<rparr>, server = empty_server\<rparr>"

definition server_with_tenant7 :: server where
  "server_with_tenant7 = empty_server\<lparr>supabase := empty_db\<lparr>tenants := [7 \<mapsto> tenant7]\<rparr>\<rparr>"

definition owner_bot7 :: bot_state where
  "owner_bot7 = \<lparr>tenant = tenant7, server = server_with_tenant7\<rparr>"

definition key_session :: session where
  "key_session = default_session\<lparr>stage := Some ''OWNER_WAIT_OPENAI_KEY''\<rparr>"

definition model_session :: session where
  "model_session = default_session\<lparr>stage := Some ''OWNER_WAIT_OPENAI_MODEL'',
                                    temp_openai_key := Some ''sk-abc''\<rparr>"

definition empty_payload :: payload where
  "empty_payload = \<lparr>payment_id = None, status = None, client = None, external_id = None\<rparr>"

definition paid_request :: body where
  "paid_request =
     \<lparr>data_prop = Some \<lparr>payment_id = Some ''p1'', status = Some ''completed'',
                         client = Some \<lparr>email = Some ''tenant_7@venux.com''\<rparr>,
                         external_id = None\<rparr>,
      top = empty_payload\<rparr>"

text \<open>
  Sample zones: UTC, and New York around the end of daylight saving time on
  2026-11-01, 06:00 UTC, which is 02:00 of the local time before the change.
\<close>

definition utc_zone :: zone where
  "utc_zone = \<lparr>LocalTZA_utc = (\<lambda>t. 0), LocalTZA_local = (\<lambda>t. 0)\<rparr>"

definition new_york_2026 :: zone where
  "new_york_2026 =
     \<lparr>LocalTZA_utc = (\<lambda>t. if t < 1793512800000 then - 14400000 else - 18000000),
      LocalTZA_local = (\<lambda>t. if t < 1793498400000 then - 14400000 else - 18000000)\<rparr>"

definition pending_request :: body where
  "pending_request =
     \<lparr>data_prop = None,
      top = \<lparr>payment_id = Some ''p1'', status = Some ''pending'',
             client = Some \<lparr>email = Some ''tenant_7@venux.com''\<rparr>, external_id = None\<rparr>\<rparr>"

section \<open>Numbers and their decimal strings\<close>

lemma digit_value: "n < 10 \<Longrightarrow> of_char (''0123456789'' ! n) - 48 = n"
proof -
  assume "n < 10"
  then consider "n = 0" | "n = 1" | "n = 2" | "n = 3" | "n = 4" | "n = 5" | "n = 6"
    | "n = 7" | "n = 8" | "n = 9" by atomize_elim arith
  then show ?thesis by cases simp_all
qed

lemma digit_isDigit: "n < 10 \<Longrightarrow> isDigit (''0123456789'' ! n)"
  unfolding isDigit_def by (rule nth_mem) simp

lemma read_nat_snoc: "read_nat (xs @ [c]) = 10 * read_nat xs + (of_char c - 48)"
  by (simp add: read_nat_def)

lemma read_show_nat: "read_nat (show_nat n) = n"
proof (induction n rule: show_nat.induct)
  case (1 n)
  show ?case
  proof (cases "n < 10")
    case True
    then show ?thesis
      by (subst show_nat.simps) (simp add: read_nat_def digit_value)
  next
    case False
    then have "read_nat (show_nat (n div 10)) = n div 10" using 1 by simp
    moreover have "of_char (''0123456789'' ! (n mod 10)) - 48 = n mod 10"
      by (rule digit_value) simp
    ultimately show ?thesis
      using False by (subst show_nat.simps) (simp add: read_nat_snoc)
  qed
qed

lemma show_nat_digits: "list_all isDigit (show_nat n)"
proof (induction n rule: show_nat.induct)
  case (1 n)
  show ?case
  proof (cases "n < 10")
    case True
    then show ?thesis by (subst show_nat.simps) (simp add: digit_isDigit)
  next
    case False
    then show ?thesis
      using 1 by (subst show_nat.simps) (simp add: digit_isDigit)
  qed
qed

lemma show_nat_inj: "show_nat a = show_nat b \<Longrightarrow> a = b"
  by (metis read_show_nat)

lemma minus_no_digit: "CHR ''-'' # xs \<noteq> show_nat n"
proof
  assume "CHR ''-'' # xs = show_nat n"
  then have "list_all isDigit (CHR ''-'' # xs)" using show_nat_digits [of n] by simp
  then show False by (simp add: isDigit_def)
qed

lemma String_js_inj: "String_js a = String_js b \<Longrightarrow> a = b"
proof -
  assume e: "String_js a = String_js b"
  show ?thesis
  proof (cases "a < 0")
    case True
    show ?thesis
    proof (cases "b < 0")
      case True
      with \<open>a < 0\<close> e have "nat (- a) = nat (- b)"
        by (simp add: String_js_def show_nat_inj)
      with True \<open>a < 0\<close> show ?thesis by simp
    next
      case False
      with \<open>a < 0\<close> e show ?thesis using minus_no_digit by (simp add: String_js_def)
    qed
  next
    case False
    show ?thesis
    proof (cases "b < 0")
      case True
      with False e show ?thesis using minus_no_digit [of _ "nat a"] by (simp add: String_js_def) metis
    next
      case bf: False
      with False e have "nat a = nat b" by (simp add: String_js_def show_nat_inj)
      with False bf show ?thesis by simp
    qed
  qed
qed

lemma cacheKey_inj: "cacheKey t a = cacheKey t b \<Longrightarrow> a = b"
  by (simp add: cacheKey_def String_js_inj)

lemma String_js_42: "String_js 42 = ''42''"
  by code_simp

lemma String_js_43: "String_js 43 = ''43''"
  by code_simp

lemma String_js_1000: "String_js 1000 = ''1000''"
  by code_simp

lemma tenant7_fields:
  "tenant_id tenant7 = 7" "openai_api_key tenant7 = None" "owner_chat_id tenant7 = Some ''1000''"
  by (simp_all add: tenant7_def)

lemma isOwner_tenant7: "isOwner tenant7 1000"
  by (simp add: isOwner_def tenant7_def String_opt_def String_js_1000)

section \<open>Properties of the session store\<close>

lemma truthy_READY [simp]: "truthy (Some ''READY'')"
  by (simp add: truthy_def)

lemma heal_props:
  "truthy (stage (heal r)) \<and> whatsapp (heal r) \<noteq> None \<and> affiliate (heal r) \<noteq> None \<and>
   reports (heal r) = reports r"
  by (simp add: heal_def Let_def)

lemma heal_repairs:
  "whatsapp (heal r) =
     (if whatsapp r = None then Some \<lparr>instances = Some [], maxInstances = Some 1\<rparr>
      else whatsapp r) \<and>
   affiliate (heal r) =
     (if affiliate r = None then Some \<lparr>balance = 0, totalEarned = 0, referralsCount = 0\<rparr>
      else affiliate r) \<and>
   stage (heal r) = (if truthy (stage r) then stage r else Some ''READY'') \<and>
   reports (heal r) = reports r \<and> isVip (heal r) = isVip r \<and>
   temp_sync_id (heal r) = temp_sync_id r \<and> temp_openai_key (heal r) = temp_openai_key r"
  by (simp add: heal_def Let_def)

lemma getSession_hit:
  assumes "sessionCache srv (cacheKey t u) = Some c"
    and "now - timestamp c < CACHE_TTL"
  shows "getSession srv now t u = (Inr (data c), srv)"
  using assms by (simp add: getSession_def)

lemma getSession_miss_norow:
  assumes "cache_miss srv now (cacheKey t u)"
    and "outage (supabase srv) = None"
    and "map_of (bot_sessions (supabase srv)) (t, String_js u) = None"
  shows "getSession srv now t u =
     (Inr default_session,
      srv\<lparr>sessionCache := (sessionCache srv)(cacheKey t u \<mapsto> \<lparr>data = default_session, timestamp = now\<rparr>),
          supabase := (supabase srv)\<lparr>selects := Suc (selects (supabase srv)),
             bot_sessions := AList.update (t, String_js u) default_session (bot_sessions (supabase srv))\<rparr>\<rparr>)"
  using assms
  by (auto simp: getSession_def cache_miss_def select_session_def saveSession_def upsert_session_def
       PGRST116_def Let_def split: option.splits)

lemma getSession_miss_row:
  assumes "cache_miss srv now (cacheKey t u)"
    and "outage (supabase srv) = None"
    and "map_of (bot_sessions (supabase srv)) (t, String_js u) = Some r"
  shows "getSession srv now t u =
     (Inr (heal r),
      srv\<lparr>sessionCache := (sessionCache srv)(cacheKey t u \<mapsto> \<lparr>data = heal r, timestamp = now\<rparr>),
          supabase := (supabase srv)\<lparr>selects := Suc (selects (supabase srv))\<rparr>\<rparr>)"
  using assms
  by (auto simp: getSession_def cache_miss_def select_session_def Let_def split: option.splits)

lemma getSession_error:
  assumes "getSession srv now t u = (Inl e, srv')"
  shows "outage (supabase srv) = Some e \<and> code e \<noteq> ''PGRST116''"
  using assms
  by (auto simp: getSession_def select_session_def Let_def PGRST116_def
       split: option.splits if_splits prod.splits)

text \<open>
  C2, as stated, fails: a stored session that has a stage, a \<^verbatim>\<open>whatsapp\<close> object and an
  \<^verbatim>\<open>affiliate\<close> object but no report bag is returned as it is, without a report bag.
\<close>

theorem getSession_complete_counterexample:
  "fst (getSession server_with_old_row 0 7 42) = Inr row_without_reports \<and>
   \<not> complete_per_spec row_without_reports"
  by (simp add: getSession_def server_with_old_row_def empty_server_def empty_db_def
      select_session_def String_js_42 Let_def heal_def row_without_reports_def truthy_def
      complete_per_spec_def)

text \<open>
  C2, amended. \<open>getSession\<close> fails only with an error of the read whose code is not
  \<^verbatim>\<open>PGRST116\<close>, never because the row is missing. On a cache miss with no row it
  returns the default session (stage \<^verbatim>\<open>START\<close>, empty instance list, empty report bag),
  which is then in the session table and in the cache. On a cache miss with a row it
  returns the row healed: a missing \<^verbatim>\<open>whatsapp\<close> object, a missing \<^verbatim>\<open>affiliate\<close>
  object and a missing or empty stage are filled in, and every other property,
  the report bag among them, is as stored. A cache hit returns the cached object.
\<close>

theorem getSession_never_not_found:
  "(\<forall>e srv'. getSession srv now t u = (Inl e, srv') \<longrightarrow>
      outage (supabase srv) = Some e \<and> code e \<noteq> ''PGRST116'') \<and>
   (cache_miss srv now (cacheKey t u) \<and> outage (supabase srv) = None \<and>
    map_of (bot_sessions (supabase srv)) (t, String_js u) = None \<longrightarrow>
      fst (getSession srv now t u) = Inr default_session \<and>
      map_of (bot_sessions (supabase (snd (getSession srv now t u)))) (t, String_js u)
        = Some default_session \<and>
      sessionCache (snd (getSession srv now t u)) (cacheKey t u)
        = Some \<lparr>data = default_session, timestamp = now\<rparr> \<and>
      stage default_session = Some ''START'' \<and>
      map_option instances (whatsapp default_session) = Some (Some []) \<and>
      reports default_session = Some []) \<and>
   (\<forall>r. cache_miss srv now (cacheKey t u) \<and> outage (supabase srv) = None \<and>
    map_of (bot_sessions (supabase srv)) (t, String_js u) = Some r \<longrightarrow>
      fst (getSession srv now t u) = Inr (heal r) \<and>
      truthy (stage (heal r)) \<and> whatsapp (heal r) \<noteq> None \<and> affiliate (heal r) \<noteq> None \<and>
      whatsapp (heal r) =
        (if whatsapp r = None then Some \<lparr>instances = Some [], maxInstances = Some 1\<rparr>
         else whatsapp r) \<and>
      affiliate (heal r) =
        (if affiliate r = None then Some \<lparr>balance = 0, totalEarned = 0, referralsCount = 0\<rparr>
         else affiliate r) \<and>
      stage (heal r) = (if truthy (stage r) then stage r else Some ''READY'') \<and>
      reports (heal r) = reports r) \<and>
   (\<forall>c. sessionCache srv (cacheKey t u) = Some c \<and> now - timestamp c < CACHE_TTL \<longrightarrow>
      getSession srv now t u = (Inr (data c), srv))"
proof (intro conjI allI impI)
  fix e srv' assume "getSession srv now t u = (Inl e, srv')"
  then show "outage (supabase srv) = Some e" "code e \<noteq> ''PGRST116''"
    using getSession_error by blast+
next
  assume h: "cache_miss srv now (cacheKey t u) \<and> outage (supabase srv) = None \<and>
    map_of (bot_sessions (supabase srv)) (t, String_js u) = None"
  then have g: "getSession srv now t u =
     (Inr default_session,
      srv\<lparr>sessionCache := (sessionCache srv)
             (cacheKey t u \<mapsto> \<lparr>data = default_session, timestamp = now\<rparr>),
          supabase := (supabase srv)\<lparr>selects := Suc (selects (supabase srv)),
             bot_sessions := AList.update (t, String_js u) default_session
                               (bot_sessions (supabase srv))\<rparr>\<rparr>)"
    using getSession_miss_norow by blast
  show "fst (getSession srv now t u) = Inr default_session" by (simp add: g)
  show "map_of (bot_sessions (supabase (snd (getSession srv now t u)))) (t, String_js u)
        = Some default_session" by (simp add: g update_conv')
  show "sessionCache (snd (getSession srv now t u)) (cacheKey t u)
        = Some \<lparr>data = default_session, timestamp = now\<rparr>" by (simp add: g)
  show "stage default_session = Some ''START''" by (simp add: default_session_def)
  show "map_option instances (whatsapp default_session) = Some (Some [])"
    by (simp add: default_session_def)
  show "reports default_session = Some []" by (simp add: default_session_def)
next
  fix r assume h: "cache_miss srv now (cacheKey t u) \<and> outage (supabase srv) = None \<and>
    map_of (bot_sessions (supabase srv)) (t, String_js u) = Some r"
  then show "fst (getSession srv now t u) = Inr (heal r)"
    using getSession_miss_row [of srv now t u r] by simp
  show "truthy (stage (heal r))" "whatsapp (heal r) \<noteq> None" "affiliate (heal r) \<noteq> None"
    using heal_props by blast+
  show "whatsapp (heal r) =
        (if whatsapp r = None then Some \<lparr>instances = Some [], maxInstances = Some 1\<rparr>
         else whatsapp r)"
    "affiliate (heal r) =
        (if affiliate r = None then Some \<lparr>balance = 0, totalEarned = 0, referralsCount = 0\<rparr>
         else affiliate r)"
    "stage (heal r) = (if truthy (stage r) then stage r else Some ''READY'')"
    "reports (heal r) = reports r"
    using heal_repairs [of r] by blast+
next
  fix c assume "sessionCache srv (cacheKey t u) = Some c \<and> now - timestamp c < CACHE_TTL"
  then show "getSession srv now t u = (Inr (data c), srv)"
    using getSession_hit by blast
qed

text \<open>
  Witness of C2 amended: a fresh pair on the empty store, the row without reports, the
  store out of reach, and a session saved a second before.
\<close>

theorem getSession_never_not_found_witness:
  "fst (getSession empty_server 0 7 42) = Inr default_session \<and>
   map_of (bot_sessions (supabase (snd (getSession empty_server 0 7 42)))) (7, ''42'')
     = Some default_session \<and>
   fst (getSession server_with_old_row 0 7 42) = Inr (heal row_without_reports) \<and>
   truthy (stage (heal row_without_reports)) \<and>
   reports (heal row_without_reports) = None \<and>
   getSession server_down 0 7 42
     = (Inl conn_error, server_down\<lparr>supabase := (supabase server_down)\<lparr>selects := 1\<rparr>\<rparr>) \<and>
   outage (supabase server_down) = Some conn_error \<and> code conn_error \<noteq> ''PGRST116'' \<and>
   getSession (saveSession empty_server 0 7 42 row_without_reports) 1000 7 42
     = (Inr row_without_reports, saveSession empty_server 0 7 42 row_without_reports)"
proof -
  have d: "getSession server_down 0 7 42
     = (Inl conn_error, server_down\<lparr>supabase := (supabase server_down)\<lparr>selects := 1\<rparr>\<rparr>)"
    by (simp add: getSession_def server_down_def empty_server_def empty_db_def
        select_session_def conn_error_def Let_def)
  have e: "outage (supabase server_down) = Some conn_error \<and> code conn_error \<noteq> ''PGRST116''"
    using getSession_never_not_found [of server_down 0 7 42, THEN conjunct1, THEN spec,
            THEN spec, THEN mp, OF d] .
  have c: "sessionCache (saveSession empty_server 0 7 42 row_without_reports) (cacheKey 7 42)
             = Some \<lparr>data = row_without_reports, timestamp = 0\<rparr> \<and>
           (1000 :: int) - timestamp \<lparr>data = row_without_reports, timestamp = 0\<rparr> < CACHE_TTL"
    by (simp add: saveSession_def CACHE_TTL_def)
  have h: "getSession (saveSession empty_server 0 7 42 row_without_reports) 1000 7 42
     = (Inr (data \<lparr>data = row_without_reports, timestamp = 0\<rparr>),
        saveSession empty_server 0 7 42 row_without_reports)"
    using getSession_never_not_found
            [of "saveSession empty_server 0 7 42 row_without_reports" 1000 7 42,
             THEN conjunct2, THEN conjunct2, THEN conjunct2, THEN spec, THEN mp, OF c] .
  have r: "reports row_without_reports = None"
    by (simp add: row_without_reports_def)
  show ?thesis
    using getSession_never_not_found [of empty_server 0 7 42]
          getSession_never_not_found [of server_with_old_row 0 7 42] d e h
    by (simp add: cache_miss_def empty_server_def empty_db_def server_with_old_row_def
        String_js_42 r)
qed

text \<open>
  C3. A \<open>saveSession\<close> followed by a \<open>getSession\<close> of the same pair, less than the
  cache's time to live later, returns the saved session and leaves the whole process
  state as the save left it: in particular no read request is sent to the store.
\<close>

theorem saveSession_getSession_roundtrip:
  assumes "now' - now < CACHE_TTL"
  shows "getSession (saveSession srv now t u S) now' t u = (Inr S, saveSession srv now t u S)"
  using assms by (simp add: getSession_def saveSession_def)

text \<open>Witness of C3: the default session saved at instant 0 and read one second later.\<close>

theorem saveSession_getSession_roundtrip_witness:
  "(1000 :: int) - 0 < CACHE_TTL \<and>
   getSession (saveSession empty_server 0 7 42 default_session) 1000 7 42
     = (Inr default_session, saveSession empty_server 0 7 42 default_session)"
  using saveSession_getSession_roundtrip [of 1000 0 empty_server 7 42 default_session]
  by (simp add: CACHE_TTL_def)

section \<open>Properties of the middleware\<close>

text \<open>
  C4. When the expiration of the tenant is strictly in the past, an event of a chat
  other than the owner's is answered with the plan-expired notice, \<^verbatim>\<open>next()\<close> is not
  called and nothing changes. An event of the owner's chat is never refused, whatever
  the expiration: it goes straight to \<open>getSession\<close> and on to the handlers.
\<close>

theorem expiration_gate:
  "(\<forall>E. expiration_date (tenant st) = Some E \<and> E < now \<and>
        Some (String_js chatId) \<noteq> owner_chat_id (tenant st) \<longrightarrow>
        tenant_middleware st now chatId = (Refused PlanExpired, st)) \<and>
   (Some (String_js chatId) = owner_chat_id (tenant st) \<longrightarrow>
      tenant_middleware st now chatId =
        (case getSession (server st) now (tenant_id (tenant st)) chatId of
           (Inl e, srv') \<Rightarrow> (Threw e, st\<lparr>server := srv'\<rparr>)
         | (Inr s, srv') \<Rightarrow> (Admitted s, st\<lparr>server := srv'\<rparr>)) \<and>
      (\<forall>r. fst (tenant_middleware st now chatId) \<noteq> Refused r))"
  by (auto simp: tenant_middleware_def split: option.splits prod.splits sum.splits)

text \<open>
  Witness of C4: tenant 7 expired at 500, at instant 1000, for chat 42 and for the
  owner's chat 1000.
\<close>

theorem expiration_gate_witness:
  "expiration_date (tenant bot7) = Some 500 \<and> (500 :: int) < 1000 \<and>
   Some (String_js 42) \<noteq> owner_chat_id (tenant bot7) \<and>
   tenant_middleware bot7 1000 42 = (Refused PlanExpired, bot7) \<and>
   Some (String_js 1000) = owner_chat_id (tenant bot7) \<and>
   (\<forall>r. fst (tenant_middleware bot7 1000 1000) \<noteq> Refused r)"
proof -
  have f: "expiration_date (tenant bot7) = Some 500" "owner_chat_id (tenant bot7) = Some ''1000''"
    by (simp_all add: bot7_def tenant7_def)
  have pre: "expiration_date (tenant bot7) = Some 500 \<and> (500 :: int) < 1000 \<and>
             Some (String_js 42) \<noteq> owner_chat_id (tenant bot7)"
    by (simp add: f String_js_42)
  have own: "Some (String_js 1000) = owner_chat_id (tenant bot7)"
    by (simp add: f String_js_1000)
  have a: "tenant_middleware bot7 1000 42 = (Refused PlanExpired, bot7)"
    using expiration_gate [of bot7 1000 42, THEN conjunct1, THEN spec, THEN mp, OF pre] .
  have b: "\<forall>r. fst (tenant_middleware bot7 1000 1000) \<noteq> Refused r"
    using expiration_gate [of bot7 1000 1000, THEN conjunct2, THEN mp, OF own, THEN conjunct2] .
  from pre own a b show ?thesis by blast
qed

lemma maxUsers_of_count [simp]: "maxUsers_of (tn\<lparr>activeUserCount := c\<rparr>) = maxUsers_of tn"
  by (simp add: maxUsers_of_def)

lemma quota_refuse:
  assumes "Some (String_js chatId) \<noteq> owner_chat_id (tenant st)"
    and "\<forall>E. expiration_date (tenant st) = Some E \<longrightarrow> \<not> now > E"
    and "sessionCache (server st) (cacheKey (tenant_id (tenant st)) chatId) = None"
    and "map_of (bot_sessions (supabase (server st))) (tenant_id (tenant st), String_js chatId) = None"
    and "activeUserCount (tenant st) \<ge> maxUsers_of (tenant st)"
  shows "tenant_middleware st now chatId =
           (Refused (LimitReached (maxUsers_of (tenant st))),
            st\<lparr>server := (server st)\<lparr>supabase := (supabase (server st))
                 \<lparr>selects := Suc (selects (supabase (server st)))\<rparr>\<rparr>\<rparr>)"
  using assms
  by (auto simp: tenant_middleware_def checkUserExists_def select_session_def Let_def
      split: option.splits)

lemma quota_admit:
  assumes "Some (String_js chatId) \<noteq> owner_chat_id (tenant st)"
    and "\<forall>E. expiration_date (tenant st) = Some E \<longrightarrow> \<not> now > E"
    and "sessionCache (server st) (cacheKey (tenant_id (tenant st)) chatId) = None"
    and "outage (supabase (server st)) = None"
    and "map_of (bot_sessions (supabase (server st))) (tenant_id (tenant st), String_js chatId) = None"
    and "activeUserCount (tenant st) < maxUsers_of (tenant st)"
  shows "tenant_middleware st now chatId =
           (Admitted default_session,
            \<lparr>tenant = (tenant st)\<lparr>activeUserCount := activeUserCount (tenant st) + 1\<rparr>,
             server = (server st)
               \<lparr>sessionCache := (sessionCache (server st))
                  (cacheKey (tenant_id (tenant st)) chatId \<mapsto> \<lparr>data = default_session, timestamp = now\<rparr>),
                supabase := (supabase (server st))
                  \<lparr>selects := Suc (Suc (selects (supabase (server st)))),
                   bot_sessions := AList.update (tenant_id (tenant st), String_js chatId)
                      default_session (bot_sessions (supabase (server st)))\<rparr>\<rparr>\<rparr>)"
  using assms
  by (auto simp: tenant_middleware_def checkUserExists_def select_session_def Let_def
        getSession_def saveSession_def upsert_session_def PGRST116_def
      split: option.splits)

lemma fst_run_events_Cons:
  "fst (run_events st ((now, u) # es)) =
     fst (tenant_middleware st now u) # fst (run_events (snd (tenant_middleware st now u)) es)"
  by (simp split: prod.splits)

lemma first_users_admitted:
  assumes "distinct (map snd es)"
    and "\<forall>e \<in> set es. Some (String_js (snd e)) \<noteq> owner_chat_id (tenant st)"
    and "\<forall>e \<in> set es. \<forall>E. expiration_date (tenant st) = Some E \<longrightarrow> \<not> fst e > E"
    and "\<forall>e \<in> set es. new_user st (snd e)"
    and "outage (supabase (server st)) = None"
    and "activeUserCount (tenant st) \<le> maxUsers_of (tenant st)"
    and "length es = Suc (nat (maxUsers_of (tenant st) - activeUserCount (tenant st)))"
  shows "fst (run_events st es) =
           replicate (nat (maxUsers_of (tenant st) - activeUserCount (tenant st)))
             (Admitted default_session)
           @ [Refused (LimitReached (maxUsers_of (tenant st)))]"
  using assms
proof (induction es arbitrary: st)
  case Nil
  then show ?case by simp
next
  case (Cons e es)
  obtain now u where e: "e = (now, u)" by (cases e)
  let ?L = "maxUsers_of (tenant st)"
  let ?c = "activeUserCount (tenant st)"
  have no: "Some (String_js u) \<noteq> owner_chat_id (tenant st)" using Cons.prems(2) e by simp
  have ne: "\<forall>E. expiration_date (tenant st) = Some E \<longrightarrow> \<not> now > E" using Cons.prems(3) e by simp
  have nu: "new_user st u" using Cons.prems(4) e by simp
  show ?case
  proof (cases "?c < ?L")
    case False
    with Cons.prems(6) have eq: "?c = ?L" by simp
    with Cons.prems(7) have "es = []" by simp
    moreover have "tenant_middleware st now u =
           (Refused (LimitReached ?L),
            st\<lparr>server := (server st)\<lparr>supabase := (supabase (server st))
                 \<lparr>selects := Suc (selects (supabase (server st)))\<rparr>\<rparr>\<rparr>)"
      using quota_refuse [of u st now] no ne nu eq by (simp add: new_user_def)
    ultimately show ?thesis unfolding e fst_run_events_Cons using eq by simp
  next
    case True
    let ?st' = "\<lparr>tenant = (tenant st)\<lparr>activeUserCount := ?c + 1\<rparr>,
             server = (server st)
               \<lparr>sessionCache := (sessionCache (server st))
                  (cacheKey (tenant_id (tenant st)) u \<mapsto> \<lparr>data = default_session, timestamp = now\<rparr>),
                supabase := (supabase (server st))
                  \<lparr>selects := Suc (Suc (selects (supabase (server st)))),
                   bot_sessions := AList.update (tenant_id (tenant st), String_js u)
                      default_session (bot_sessions (supabase (server st)))\<rparr>\<rparr>\<rparr>"
    have step: "tenant_middleware st now u = (Admitted default_session, ?st')"
      using quota_admit [of u st now] no ne nu Cons.prems(5) True by (simp add: new_user_def)
    have p1: "distinct (map snd es)" using Cons.prems(1) by simp
    have p2: "\<forall>e \<in> set es. Some (String_js (snd e)) \<noteq> owner_chat_id (tenant ?st')"
      using Cons.prems(2) by simp
    have p3: "\<forall>e \<in> set es. \<forall>E. expiration_date (tenant ?st') = Some E \<longrightarrow> \<not> fst e > E"
      using Cons.prems(3) by simp
    have p4: "\<forall>e' \<in> set es. new_user ?st' (snd e')"
    proof
      fix e' assume m: "e' \<in> set es"
      then have d: "snd e' \<noteq> u" using Cons.prems(1) e by auto
      then have k: "cacheKey (tenant_id (tenant st)) (snd e') \<noteq> cacheKey (tenant_id (tenant st)) u"
        and s: "String_js (snd e') \<noteq> String_js u"
        using cacheKey_inj String_js_inj by blast+
      from m Cons.prems(4) have "new_user st (snd e')" by simp
      with k s show "new_user ?st' (snd e')"
        by (simp add: new_user_def update_conv')
    qed
    have p5: "outage (supabase (server ?st')) = None" using Cons.prems(5) by simp
    have p6: "activeUserCount (tenant ?st') \<le> maxUsers_of (tenant ?st')"
      using True by simp
    have p7: "length es = Suc (nat (maxUsers_of (tenant ?st') - activeUserCount (tenant ?st')))"
      using Cons.prems(7) True by simp
    have ih: "fst (run_events ?st' es) =
           replicate (nat (?L - (?c + 1))) (Admitted default_session)
           @ [Refused (LimitReached ?L)]"
      using Cons.IH [OF p1 p2 p3 p4 p5 p6 p7] by simp
    have r: "nat (?L - ?c) = Suc (nat (?L - (?c + 1)))" using True by simp
    show ?thesis
      unfolding e fst_run_events_Cons step using ih by (simp add: r)
  qed
qed

text \<open>
  C5, as stated, fails for \<^verbatim>\<open>max_users = 0\<close>: the counter, 0, has reached the limit of
  the claim, yet a new user is admitted and counted, because \<^verbatim>\<open>tenant.max_users || 10\<close>
  makes the limit 10.
\<close>

theorem quota_counterexample:
  "max_users (tenant bot7_unlimited) = Some 0 \<and>
   activeUserCount (tenant bot7_unlimited) \<ge> 0 \<and>
   Some (String_js 42) \<noteq> owner_chat_id (tenant bot7_unlimited) \<and>
   sessionCache (server bot7_unlimited) (cacheKey 7 42) = None \<and>
   map_of (bot_sessions (supabase (server bot7_unlimited))) (7, String_js 42) = None \<and>
   fst (tenant_middleware bot7_unlimited 0 42) = Admitted default_session \<and>
   activeUserCount (tenant (snd (tenant_middleware bot7_unlimited 0 42))) = 1"
  by (simp add: bot7_unlimited_def tenant7_def empty_server_def empty_db_def String_js_42
      tenant_middleware_def checkUserExists_def select_session_def Let_def maxUsers_of_def
      getSession_def saveSession_def upsert_session_def PGRST116_def)

text \<open>
  C5, amended. The limit \<open>L\<close> is \<^verbatim>\<open>max_users\<close> when that is a number other than 0, and
  10 when it is null or 0. For a tenant that is not expired at the time of the event, a
  new user other than the owner is refused with the limit notice when the counter is at
  least \<open>L\<close>, and counter, cache and session table stay as they were; when the counter is
  below \<open>L\<close> and the store answers, the event is admitted with the default session and
  the counter grows by exactly one. So, of \<open>L - c + 1\<close> distinct new users arriving at a
  counter \<open>c \<le> L\<close>, all but the last are admitted and the last is refused.
\<close>

theorem quota_gate:
  "(max_users (tenant st) = None \<or> max_users (tenant st) = Some 0
      \<longrightarrow> maxUsers_of (tenant st) = 10) \<and>
   (\<forall>N. max_users (tenant st) = Some N \<and> N \<noteq> 0 \<longrightarrow> maxUsers_of (tenant st) = N) \<and>
   (Some (String_js chatId) \<noteq> owner_chat_id (tenant st) \<and>
    (\<forall>E. expiration_date (tenant st) = Some E \<longrightarrow> \<not> now > E) \<and>
    new_user st chatId \<and>
    activeUserCount (tenant st) \<ge> maxUsers_of (tenant st) \<longrightarrow>
      tenant_middleware st now chatId =
        (Refused (LimitReached (maxUsers_of (tenant st))),
         st\<lparr>server := (server st)\<lparr>supabase := (supabase (server st))
              \<lparr>selects := Suc (selects (supabase (server st)))\<rparr>\<rparr>\<rparr>)) \<and>
   (Some (String_js chatId) \<noteq> owner_chat_id (tenant st) \<and>
    (\<forall>E. expiration_date (tenant st) = Some E \<longrightarrow> \<not> now > E) \<and>
    new_user st chatId \<and> outage (supabase (server st)) = None \<and>
    activeUserCount (tenant st) < maxUsers_of (tenant st) \<longrightarrow>
      fst (tenant_middleware st now chatId) = Admitted default_session \<and>
      activeUserCount (tenant (snd (tenant_middleware st now chatId)))
        = activeUserCount (tenant st) + 1) \<and>
   (\<forall>es. distinct (map snd es) \<and>
      (\<forall>e \<in> set es. Some (String_js (snd e)) \<noteq> owner_chat_id (tenant st)) \<and>
      (\<forall>e \<in> set es. \<forall>E. expiration_date (tenant st) = Some E \<longrightarrow> \<not> fst e > E) \<and>
      (\<forall>e \<in> set es. new_user st (snd e)) \<and>
      outage (supabase (server st)) = None \<and>
      activeUserCount (tenant st) \<le> maxUsers_of (tenant st) \<and>
      length es = Suc (nat (maxUsers_of (tenant st) - activeUserCount (tenant st))) \<longrightarrow>
      fst (run_events st es) =
        replicate (nat (maxUsers_of (tenant st) - activeUserCount (tenant st)))
          (Admitted default_session)
        @ [Refused (LimitReached (maxUsers_of (tenant st)))])"
proof (intro conjI allI impI)
  show "maxUsers_of (tenant st) = 10"
    if "max_users (tenant st) = None \<or> max_users (tenant st) = Some 0"
    using that by (auto simp: maxUsers_of_def)
  show "maxUsers_of (tenant st) = N" if "max_users (tenant st) = Some N \<and> N \<noteq> 0" for N
    using that by (simp add: maxUsers_of_def)
  show "tenant_middleware st now chatId =
        (Refused (LimitReached (maxUsers_of (tenant st))),
         st\<lparr>server := (server st)\<lparr>supabase := (supabase (server st))
              \<lparr>selects := Suc (selects (supabase (server st)))\<rparr>\<rparr>\<rparr>)"
    if "Some (String_js chatId) \<noteq> owner_chat_id (tenant st) \<and>
        (\<forall>E. expiration_date (tenant st) = Some E \<longrightarrow> \<not> now > E) \<and>
        new_user st chatId \<and>
        activeUserCount (tenant st) \<ge> maxUsers_of (tenant st)"
    using that quota_refuse [of chatId st now] by (simp add: new_user_def)
  have adm: "tenant_middleware st now chatId =
           (Admitted default_session,
            \<lparr>tenant = (tenant st)\<lparr>activeUserCount := activeUserCount (tenant st) + 1\<rparr>,
             server = (server st)
               \<lparr>sessionCache := (sessionCache (server st))
                  (cacheKey (tenant_id (tenant st)) chatId
                     \<mapsto> \<lparr>data = default_session, timestamp = now\<rparr>),
                supabase := (supabase (server st))
                  \<lparr>selects := Suc (Suc (selects (supabase (server st)))),
                   bot_sessions := AList.update (tenant_id (tenant st), String_js chatId)
                      default_session (bot_sessions (supabase (server st)))\<rparr>\<rparr>\<rparr>)"
    if "Some (String_js chatId) \<noteq> owner_chat_id (tenant st) \<and>
        (\<forall>E. expiration_date (tenant st) = Some E \<longrightarrow> \<not> now > E) \<and>
        new_user st chatId \<and> outage (supabase (server st)) = None \<and>
        activeUserCount (tenant st) < maxUsers_of (tenant st)"
    using that quota_admit [of chatId st now] by (simp add: new_user_def)
  show "fst (tenant_middleware st now chatId) = Admitted default_session"
    if "Some (String_js chatId) \<noteq> owner_chat_id (tenant st) \<and>
        (\<forall>E. expiration_date (tenant st) = Some E \<longrightarrow> \<not> now > E) \<and>
        new_user st chatId \<and> outage (supabase (server st)) = None \<and>
        activeUserCount (tenant st) < maxUsers_of (tenant st)"
    using adm [OF that] by simp
  show "activeUserCount (tenant (snd (tenant_middleware st now chatId)))
        = activeUserCount (tenant st) + 1"
    if "Some (String_js chatId) \<noteq> owner_chat_id (tenant st) \<and>
        (\<forall>E. expiration_date (tenant st) = Some E \<longrightarrow> \<not> now > E) \<and>
        new_user st chatId \<and> outage (supabase (server st)) = None \<and>
        activeUserCount (tenant st) < maxUsers_of (tenant st)"
    using adm [OF that] by simp
  show "fst (run_events st es) =
        replicate (nat (maxUsers_of (tenant st) - activeUserCount (tenant st)))
          (Admitted default_session)
        @ [Refused (LimitReached (maxUsers_of (tenant st)))]"
    if "distinct (map snd es) \<and>
      (\<forall>e \<in> set es. Some (String_js (snd e)) \<noteq> owner_chat_id (tenant st)) \<and>
      (\<forall>e \<in> set es. \<forall>E. expiration_date (tenant st) = Some E \<longrightarrow> \<not> fst e > E) \<and>
      (\<forall>e \<in> set es. new_user st (snd e)) \<and>
      outage (supabase (server st)) = None \<and>
      activeUserCount (tenant st) \<le> maxUsers_of (tenant st) \<and>
      length es = Suc (nat (maxUsers_of (tenant st) - activeUserCount (tenant st)))" for es
    using that first_users_admitted [of es st] by blast
qed

text \<open>
  Witness of C5 amended: tenant 7 with limit 1, before its expiration. With one user
  counted, the new chat 42 is refused and the counter stays 1; with none counted it is
  admitted and counted; and of the two new chats 42 and 43 the first is admitted and the
  second refused.
\<close>

theorem quota_gate_witness:
  "max_users (tenant bot7) = Some 1 \<and> maxUsers_of (tenant bot7) = 1 \<and>
   max_users (tenant bot7_unlimited) = Some 0 \<and> maxUsers_of (tenant bot7_unlimited) = 10 \<and>
   Some (String_js 42) \<noteq> owner_chat_id (tenant bot7) \<and>
   new_user bot7 42 \<and> new_user bot7_full 42 \<and> new_user bot7 43 \<and>
   fst (tenant_middleware bot7_full 100 42) = Refused (LimitReached 1) \<and>
   activeUserCount (tenant (snd (tenant_middleware bot7_full 100 42))) = 1 \<and>
   fst (tenant_middleware bot7 100 42) = Admitted default_session \<and>
   activeUserCount (tenant (snd (tenant_middleware bot7 100 42))) = 1 \<and>
   fst (run_events bot7 [(100, 42), (101, 43)])
     = [Admitted default_session, Refused (LimitReached 1)]"
proof -
  have f0: "max_users (tenant bot7) = Some 1 \<and> (1 :: int) \<noteq> 0"
    "max_users (tenant bot7_full) = Some 1 \<and> (1 :: int) \<noteq> 0"
    "max_users (tenant bot7_unlimited) = None \<or> max_users (tenant bot7_unlimited) = Some 0"
    by (simp_all add: tenant7_def bot7_def bot7_full_def bot7_unlimited_def)
  have m: "maxUsers_of (tenant bot7) = 1" "maxUsers_of (tenant bot7_full) = 1"
    using quota_gate [of bot7 42 100, THEN conjunct2, THEN conjunct1, THEN spec, THEN mp,
                      OF f0(1)]
          quota_gate [of bot7_full 42 100, THEN conjunct2, THEN conjunct1, THEN spec,
                      THEN mp, OF f0(2)]
    by simp_all
  have m0: "maxUsers_of (tenant bot7_unlimited) = 10"
    using quota_gate [of bot7_unlimited 42 100, THEN conjunct1, THEN mp, OF f0(3)] .
  have u0: "max_users (tenant bot7_unlimited) = Some 0"
    by (simp add: tenant7_def bot7_unlimited_def)
  have n: "new_user bot7 42" "new_user bot7_full 42" "new_user bot7 43"
    by (simp_all add: new_user_def bot7_def bot7_full_def empty_server_def empty_db_def)
  have f: "max_users (tenant bot7) = Some 1"
    "owner_chat_id (tenant bot7) = Some ''1000''" "owner_chat_id (tenant bot7_full) = Some ''1000''"
    "expiration_date (tenant bot7) = Some 500" "expiration_date (tenant bot7_full) = Some 500"
    "activeUserCount (tenant bot7) = 0" "activeUserCount (tenant bot7_full) = 1"
    by (simp_all add: tenant7_def bot7_def bot7_full_def)
  have o: "outage (supabase (server bot7)) = None"
    by (simp add: bot7_def empty_server_def empty_db_def)
  have pre_full:
    "Some (String_js 42) \<noteq> owner_chat_id (tenant bot7_full) \<and>
     (\<forall>E. expiration_date (tenant bot7_full) = Some E \<longrightarrow> \<not> 100 > E) \<and>
     new_user bot7_full 42 \<and>
     activeUserCount (tenant bot7_full) \<ge> maxUsers_of (tenant bot7_full)"
    by (simp add: f m n String_js_42)
  have pre_adm:
    "Some (String_js 42) \<noteq> owner_chat_id (tenant bot7) \<and>
     (\<forall>E. expiration_date (tenant bot7) = Some E \<longrightarrow> \<not> 100 > E) \<and>
     new_user bot7 42 \<and> outage (supabase (server bot7)) = None \<and>
     activeUserCount (tenant bot7) < maxUsers_of (tenant bot7)"
    by (simp add: f m n o String_js_42)
  have pre_seq:
    "distinct (map snd [(100 :: int, 42 :: int), (101, 43)]) \<and>
      (\<forall>e \<in> set [(100 :: int, 42 :: int), (101, 43)].
          Some (String_js (snd e)) \<noteq> owner_chat_id (tenant bot7)) \<and>
      (\<forall>e \<in> set [(100 :: int, 42 :: int), (101, 43)].
          \<forall>E. expiration_date (tenant bot7) = Some E \<longrightarrow> \<not> fst e > E) \<and>
      (\<forall>e \<in> set [(100 :: int, 42 :: int), (101, 43)]. new_user bot7 (snd e)) \<and>
      outage (supabase (server bot7)) = None \<and>
      activeUserCount (tenant bot7) \<le> maxUsers_of (tenant bot7) \<and>
      length [(100 :: int, 42 :: int), (101, 43)]
        = Suc (nat (maxUsers_of (tenant bot7) - activeUserCount (tenant bot7)))"
    by (simp add: f m n o String_js_42 String_js_43)
  have r: "tenant_middleware bot7_full 100 42 =
        (Refused (LimitReached (maxUsers_of (tenant bot7_full))),
         bot7_full\<lparr>server := (server bot7_full)\<lparr>supabase := (supabase (server bot7_full))
              \<lparr>selects := Suc (selects (supabase (server bot7_full)))\<rparr>\<rparr>\<rparr>)"
    using quota_gate [of bot7_full 42 100, THEN conjunct2, THEN conjunct2, THEN conjunct1,
                      THEN mp, OF pre_full] .
  have a: "fst (tenant_middleware bot7 100 42) = Admitted default_session \<and>
      activeUserCount (tenant (snd (tenant_middleware bot7 100 42)))
        = activeUserCount (tenant bot7) + 1"
    using quota_gate [of bot7 42 100, THEN conjunct2, THEN conjunct2, THEN conjunct2,
                      THEN conjunct1, THEN mp, OF pre_adm] .
  have q: "fst (run_events bot7 [(100, 42), (101, 43)]) =
        replicate (nat (maxUsers_of (tenant bot7) - activeUserCount (tenant bot7)))
          (Admitted default_session)
        @ [Refused (LimitReached (maxUsers_of (tenant bot7)))]"
    using quota_gate [of bot7 42 100, THEN conjunct2, THEN conjunct2, THEN conjunct2,
                      THEN conjunct2, THEN spec, of "[(100, 42), (101, 43)]",
                      THEN mp, OF pre_seq] .
  have r1: "fst (tenant_middleware bot7_full 100 42) = Refused (LimitReached 1)"
    by (simp add: r m)
  have r2: "activeUserCount (tenant (snd (tenant_middleware bot7_full 100 42))) = 1"
    by (simp add: r f)
  have a2: "activeUserCount (tenant (snd (tenant_middleware bot7 100 42))) = 1"
    using a by (simp add: f)
  have q1: "fst (run_events bot7 [(100, 42), (101, 43)])
     = [Admitted default_session, Refused (LimitReached 1)]"
    by (subst q) (simp add: m f)
  from f(1) m(1) u0 m0 pre_adm n r1 r2 a a2 q1 show ?thesis by blast
qed

section \<open>Properties of the registry\<close>

lemma map_of_map_set: "map_of (map_set m k v) = (map_of m)(k \<mapsto> v)"
  by (induction m) (auto simp: fun_eq_iff)

lemma keys_map_set:
  "map fst (map_set m k v) = (if k \<in> set (map fst m) then map fst m else map fst m @ [k])"
proof (induction m)
  case Nil
  then show ?case by simp
next
  case (Cons a m)
  then show ?case by (cases a) force
qed

lemma count_map_set:
  "distinct (map fst m) \<Longrightarrow> length (filter (\<lambda>e. fst e = k) (map_set m k v)) = 1"
proof (induction m)
  case Nil
  then show ?case by simp
next
  case (Cons a m)
  show ?case
  proof (cases "fst a = k")
    case True
    with Cons.prems have "k \<notin> fst ` set m" by auto
    then have "filter (\<lambda>e. fst e = k) m = []"
      by (auto simp: filter_empty_conv)
    with True show ?thesis by (cases a) simp
  next
    case False
    with Cons show ?thesis by (cases a) simp
  qed
qed

lemma startTenantBot_registry:
  "activeBots (snd (startTenantBot srv tn)) =
     map_set (activeBots srv) (tenant_id tn) (length (telegrafs srv))"
  by (simp add: startTenantBot_def Let_def getTenantUserCount_def telegraf_stop_def
      split: option.splits prod.splits sum.splits)

lemma startTenantBot_telegrafs:
  "telegrafs (snd (startTenantBot srv tn)) =
     (case map_of (activeBots srv) (tenant_id tn) of
        None \<Rightarrow> telegrafs srv
      | Some old \<Rightarrow>
          if old < length (telegrafs srv) \<and>
             (telegrafs srv ! old = Polling \<or> telegrafs srv ! old = Stopped)
          then (telegrafs srv)[old := Stopped]
          else telegrafs srv) @ [Launching]"
  by (auto simp: startTenantBot_def Let_def getTenantUserCount_def telegraf_stop_def map_has_def
      split: option.splits prod.splits sum.splits)

lemma startTenantBot_new_instance:
  "length (telegrafs (snd (startTenantBot srv tn))) = Suc (length (telegrafs srv)) \<and>
   telegrafs (snd (startTenantBot srv tn)) ! length (telegrafs srv) = Launching"
  by (simp add: startTenantBot_telegrafs nth_append split: option.splits)

lemma launch_settles_state:
  assumes "h < length (telegrafs srv)" and "telegrafs srv ! h = Launching"
  shows "activeBots (launch_settles srv h outcome) = activeBots srv \<and>
         length (telegrafs (launch_settles srv h outcome)) = length (telegrafs srv) \<and>
         telegrafs (launch_settles srv h outcome) ! h =
           (case outcome of
              None \<Rightarrow> Launching
            | Some ok \<Rightarrow> if ok then Polling else Failed)"
  using assms by (simp add: launch_settles_def split: option.splits)

text \<open>
  C7. Two starts of a tenant, one after the other, with the launch of the first instance
  settled in between or not. The registry (a \<^verbatim>\<open>Map\<close>, so with distinct keys to begin
  with) then holds exactly one entry for the tenant id: the first start registers the
  instance it creates, the second registers its own under the same key and adds no key.
  Before that the second start calls \<^verbatim>\<open>stop()\<close> on the first instance: an instance
  that polls is stopped; on one whose launch was rejected or has not settled the stop
  throws, the error is swallowed and the instance is left as it was, so that a launch
  still under way can settle afterwards and the instance then polls, unregistered.
\<close>

theorem startTenantBot_twice:
  assumes "distinct (map fst (activeBots srv))"
  shows "length (filter (\<lambda>e. fst e = tenant_id tn)
           (activeBots (snd (startTenantBot
              (launch_settles (snd (startTenantBot srv tn)) (length (telegrafs srv)) settled)
              tn)))) = 1 \<and>
         map_of (activeBots (snd (startTenantBot
              (launch_settles (snd (startTenantBot srv tn)) (length (telegrafs srv)) settled)
              tn))) (tenant_id tn) = Some (Suc (length (telegrafs srv))) \<and>
         map_of (activeBots (snd (startTenantBot srv tn))) (tenant_id tn)
           = Some (length (telegrafs srv)) \<and>
         telegrafs (snd (startTenantBot
              (launch_settles (snd (startTenantBot srv tn)) (length (telegrafs srv)) settled)
              tn)) ! length (telegrafs srv) =
           (case settled of
              None \<Rightarrow> Launching
            | Some ok \<Rightarrow> if ok then Stopped else Failed) \<and>
         telegrafs (snd (startTenantBot
              (launch_settles (snd (startTenantBot srv tn)) (length (telegrafs srv)) settled)
              tn)) ! Suc (length (telegrafs srv)) = Launching \<and>
         map fst (activeBots (snd (startTenantBot
              (launch_settles (snd (startTenantBot srv tn)) (length (telegrafs srv)) settled)
              tn))) = map fst (activeBots (snd (startTenantBot srv tn))) \<and>
         (settled = None \<longrightarrow>
            telegrafs (launch_settles (snd (startTenantBot
                 (launch_settles (snd (startTenantBot srv tn)) (length (telegrafs srv)) settled)
                 tn)) (length (telegrafs srv)) (Some True)) ! length (telegrafs srv) = Polling)"
proof -
  let ?h = "length (telegrafs srv)"
  let ?s1 = "snd (startTenantBot srv tn)"
  let ?m = "launch_settles ?s1 ?h settled"
  let ?s2 = "snd (startTenantBot ?m tn)"
  let ?k = "tenant_id tn"
  have r1: "activeBots ?s1 = map_set (activeBots srv) ?k ?h"
    by (rule startTenantBot_registry)
  have d1: "distinct (map fst (activeBots ?s1))"
    using assms by (simp add: r1 keys_map_set)
  have n1: "length (telegrafs ?s1) = Suc ?h" "telegrafs ?s1 ! ?h = Launching"
    using startTenantBot_new_instance [of srv tn] by simp_all
  have g1: "map_of (activeBots ?s1) ?k = Some ?h"
    by (simp add: r1 map_of_map_set)
  have mid: "activeBots ?m = activeBots ?s1" "length (telegrafs ?m) = Suc ?h"
    "telegrafs ?m ! ?h = (case settled of None \<Rightarrow> Launching
                          | Some ok \<Rightarrow> if ok then Polling else Failed)"
    using launch_settles_state [of ?h ?s1 settled] n1 by simp_all
  have r2: "activeBots ?s2 = map_set (activeBots ?s1) ?k (Suc ?h)"
    by (simp add: startTenantBot_registry mid)
  have t2: "telegrafs ?s2 =
      (if telegrafs ?m ! ?h = Polling \<or> telegrafs ?m ! ?h = Stopped
       then (telegrafs ?m)[?h := Stopped] else telegrafs ?m) @ [Launching]"
    by (simp add: startTenantBot_telegrafs [of ?m] mid g1)
  have c: "length (filter (\<lambda>e. fst e = ?k) (activeBots ?s2)) = 1"
    unfolding r2 using d1 by (rule count_map_set)
  have g2: "map_of (activeBots ?s2) ?k = Some (Suc ?h)"
    by (simp add: r2 map_of_map_set)
  have first: "telegrafs ?s2 ! ?h =
      (case settled of None \<Rightarrow> Launching | Some ok \<Rightarrow> if ok then Stopped else Failed)"
    by (simp add: t2 nth_append mid split: option.splits)
  have new: "telegrafs ?s2 ! Suc ?h = Launching"
    by (simp add: t2 nth_append mid)
  have k1: "?k \<in> set (map fst (activeBots ?s1))"
    using g1 by (metis map_of_eq_None_iff option.distinct(1) set_map)
  have keys: "map fst (activeBots ?s2) = map fst (activeBots ?s1)"
    unfolding r2 keys_map_set using k1 by simp
  have len2: "length (telegrafs ?s2) = Suc (Suc ?h)"
    by (simp add: t2 mid)
  have late: "settled = None \<longrightarrow>
      telegrafs (launch_settles ?s2 ?h (Some True)) ! ?h = Polling"
  proof
    assume "settled = None"
    with first have "telegrafs ?s2 ! ?h = Launching" by simp
    moreover have "?h < length (telegrafs ?s2)" using len2 by simp
    ultimately show "telegrafs (launch_settles ?s2 ?h (Some True)) ! ?h = Polling"
      using launch_settles_state [of ?h ?s2 "Some True"] by simp
  qed
  from c g2 g1 first new keys late show ?thesis by blast
qed

text \<open>
  Witness of C7: tenant 7 started twice on the empty process, with the first launch
  settled into polling before the second start, and with the first launch still under
  way.
\<close>

theorem startTenantBot_twice_witness:
  "distinct (map fst (activeBots empty_server)) \<and>
   length (filter (\<lambda>e. fst e = tenant_id tenant7)
      (activeBots (snd (startTenantBot
         (launch_settles (snd (startTenantBot empty_server tenant7)) 0 (Some True))
         tenant7)))) = 1 \<and>
   map_of (activeBots (snd (startTenantBot
         (launch_settles (snd (startTenantBot empty_server tenant7)) 0 (Some True))
         tenant7))) (tenant_id tenant7) = Some 1 \<and>
   telegrafs (snd (startTenantBot
         (launch_settles (snd (startTenantBot empty_server tenant7)) 0 (Some True))
         tenant7)) ! 0 = Stopped \<and>
   length (filter (\<lambda>e. fst e = tenant_id tenant7)
      (activeBots (snd (startTenantBot
         (launch_settles (snd (startTenantBot empty_server tenant7)) 0 None)
         tenant7)))) = 1 \<and>
   telegrafs (snd (startTenantBot
         (launch_settles (snd (startTenantBot empty_server tenant7)) 0 None)
         tenant7)) ! 0 = Launching \<and>
   telegrafs (launch_settles (snd (startTenantBot
         (launch_settles (snd (startTenantBot empty_server tenant7)) 0 None)
         tenant7)) 0 (Some True)) ! 0 = Polling"
proof -
  have d: "distinct (map fst (activeBots empty_server))"
    by (simp add: empty_server_def)
  have l: "length (telegrafs empty_server) = 0"
    by (simp add: empty_server_def)
  show ?thesis
    using d startTenantBot_twice [OF d, of tenant7 "Some True"]
          startTenantBot_twice [OF d, of tenant7 None]
    by (simp add: l)
qed

section \<open>Properties of the owner's wizard\<close>

text \<open>
  C8, as stated, fails: in the stage that waits for the key, the owner's text
  \<^verbatim>\<open>/cancelar\<close> does not start with \<^verbatim>\<open>sk-\<close>, yet the reply is the cancellation and the
  dashboard, not the validation message, and the stage becomes \<^verbatim>\<open>READY\<close>.
\<close>

theorem openai_key_step_counterexample:
  "isOwner (tenant owner_bot7) 1000 \<and> stage key_session = Some ''OWNER_WAIT_OPENAI_KEY'' \<and>
   \<not> startsWith ''/cancelar'' ''sk-'' \<and>
   fst (snd (owner_text owner_bot7 0 1000 key_session ''/cancelar'')) = [Cancelled, Dashboard] \<and>
   stage (fst (snd (snd (owner_text owner_bot7 0 1000 key_session ''/cancelar'')))) = Some ''READY''"
  by (simp add: owner_bot7_def isOwner_tenant7 key_session_def owner_text_def Let_def
      renderOwnerDashboard_def ctx_save_def)

text \<open>
  C8, amended. For an owner's text that does not begin with \<^verbatim>\<open>/\<close>, in the stage that
  waits for the key: if the text, trimmed of surrounding white space, does not start
  with \<^verbatim>\<open>sk-\<close>, the only reply is the validation message and session, tenant object
  and store are untouched; if it does, the trimmed text is kept in the session, the
  stage becomes the model choice, the reply asks for the model, and neither the tenant
  table nor the tenant object changes.
\<close>

theorem openai_key_step:
  assumes "isOwner (tenant st) chatId"
    and "stage sess = Some ''OWNER_WAIT_OPENAI_KEY''"
    and "\<not> startsWith txt ''/''"
  shows "(\<not> startsWith (trim txt) ''sk-'' \<longrightarrow>
            owner_text st now chatId sess txt = (Return, [InvalidKey], sess, st)) \<and>
         (startsWith (trim txt) ''sk-'' \<longrightarrow>
            owner_text st now chatId sess txt =
              (Return, [ChooseModel],
               sess\<lparr>temp_openai_key := Some (trim txt), stage := Some ''OWNER_WAIT_OPENAI_MODEL''\<rparr>,
               ctx_save st now chatId
                 (sess\<lparr>temp_openai_key := Some (trim txt),
                       stage := Some ''OWNER_WAIT_OPENAI_MODEL''\<rparr>)) \<and>
            tenants (supabase (server (ctx_save st now chatId
                 (sess\<lparr>temp_openai_key := Some (trim txt),
                       stage := Some ''OWNER_WAIT_OPENAI_MODEL''\<rparr>))))
              = tenants (supabase (server st)) \<and>
            tenant (ctx_save st now chatId
                 (sess\<lparr>temp_openai_key := Some (trim txt),
                       stage := Some ''OWNER_WAIT_OPENAI_MODEL''\<rparr>)) = tenant st)"
proof -
  from assms(3) have nc: "txt \<noteq> ''/cancelar''" by auto
  have frame: "\<And>s. tenants (supabase (server (ctx_save st now chatId s)))
                  = tenants (supabase (server st))"
    by (simp add: ctx_save_def saveSession_def upsert_session_def split: option.splits)
  have tn: "\<And>s. tenant (ctx_save st now chatId s) = tenant st"
    by (simp add: ctx_save_def)
  show ?thesis
    using assms nc by (simp add: owner_text_def Let_def frame tn)
qed

text \<open>
  Witness of C8 amended: the owner of tenant 7 sends \<^verbatim>\<open>abc\<close>, then a key with a space
  before it.
\<close>

theorem openai_key_step_witness:
  "isOwner (tenant owner_bot7) 1000 \<and> stage key_session = Some ''OWNER_WAIT_OPENAI_KEY'' \<and>
   \<not> startsWith ''abc'' ''/'' \<and> \<not> startsWith (trim ''abc'') ''sk-'' \<and>
   owner_text owner_bot7 0 1000 key_session ''abc'' = (Return, [InvalidKey], key_session, owner_bot7) \<and>
   \<not> startsWith '' sk-abc'' ''/'' \<and> startsWith (trim '' sk-abc'') ''sk-'' \<and>
   fst (snd (owner_text owner_bot7 0 1000 key_session '' sk-abc'')) = [ChooseModel]"
proof -
  have o: "isOwner (tenant owner_bot7) 1000"
    by (simp add: owner_bot7_def isOwner_tenant7)
  have s: "stage key_session = Some ''OWNER_WAIT_OPENAI_KEY''"
    by (simp add: key_session_def)
  have n1: "\<not> startsWith ''abc'' ''/''" by simp
  have n2: "\<not> startsWith '' sk-abc'' ''/''" by simp
  have t1: "trim ''abc'' = ''abc''" by (simp add: trim_def isWhiteSpace_def)
  have t2: "trim '' sk-abc'' = ''sk-abc''" by (simp add: trim_def isWhiteSpace_def)
  show ?thesis
    using o s openai_key_step [OF o s n1, of 0] openai_key_step [OF o s n2, of 0]
    by (simp add: t1 t2)
qed

text \<open>
  C9, on the code: the owner of tenant 7 cancels in the stage of the model choice, with
  a key already entered. The stage becomes \<^verbatim>\<open>READY\<close> and the tenant row has no key,
  but the session, as handed back and as the next event reads it from the cache, still
  holds the key; a press of a model button left over from the cancelled dialogue then
  writes that key into the tenant row.
\<close>

theorem cancel_keeps_temp_key:
  "(case owner_text owner_bot7 0 1000 model_session ''/cancelar'' of
      (fl, rs, sess', st') \<Rightarrow>
        stage sess' = Some ''READY'' \<and>
        temp_openai_key sess' = Some ''sk-abc'' \<and>
        fst (getSession (server st') 1 7 1000) = Inr sess' \<and>
        map_option openai_api_key (tenants (supabase (server st')) 7) = Some None \<and>
        map_option openai_api_key
          (tenants (supabase (server (snd (snd (saveModel st' 1 1000 sess' ''gpt-4o''))))) 7)
          = Some (Some ''sk-abc''))"
  by (simp add: owner_bot7_def isOwner_tenant7 model_session_def owner_text_def Let_def
      renderOwnerDashboard_def ctx_save_def saveModel_def truthy_def update_tenant_def
      server_with_tenant7_def empty_server_def empty_db_def saveSession_def upsert_session_def
      tenant7_fields getSession_def CACHE_TTL_def)

section \<open>Properties of the payment webhook\<close>

lemma tenantId_of_paid: "tenantId_of (payload_of paid_request) = Some ''7''"
  by code_simp

lemma parse_id_7: "parse_id ''7'' = Some 7"
  by code_simp

text \<open>
  The notification of a charge resolves to its tenant: the e-mail of the charge gives
  the decimal string of the tenant id, which the store reads back as the id.
\<close>

lemma show_nat_nonempty: "show_nat n \<noteq> []"
  by (subst show_nat.simps) simp

lemma parse_show_nat: "parse_id (show_nat n) = Some n"
  by (simp add: parse_id_def show_nat_nonempty show_nat_digits read_show_nat)

lemma match_subscription_email:
  "match_tenant_email (subscription_email tn) = Some (show_nat (tenant_id tn))"
proof -
  have d: "\<forall>x \<in> set (show_nat (tenant_id tn)). isDigit x"
    using show_nat_digits [of "tenant_id tn"] by (simp add: list_all_iff)
  have a: "\<not> isDigit CHR ''@''" by (simp add: isDigit_def)
  have t: "takeWhile isDigit (show_nat (tenant_id tn) @ ''@venux.com'') = show_nat (tenant_id tn)"
    using d a by simp
  have r: "dropWhile isDigit (show_nat (tenant_id tn) @ ''@venux.com'') = ''@venux.com''"
    using d a by simp
  show ?thesis
    by (simp add: subscription_email_def String_js_def t r show_nat_nonempty)
qed

lemma subscription_email_nonempty: "subscription_email tn \<noteq> []"
  by (simp add: subscription_email_def)

lemma subscription_email_resolves:
  "tenantId_of \<lparr>payment_id = p, status = s,
                 client = Some \<lparr>email = Some (subscription_email tn)\<rparr>, external_id = x\<rparr>
     = Some (show_nat (tenant_id tn)) \<and>
   parse_id (show_nat (tenant_id tn)) = Some (tenant_id tn)"
  by (simp add: tenantId_of_def match_subscription_email parse_show_nat truthy_def
      show_nat_nonempty subscription_email_nonempty)

text \<open>
  C1. A notification with an eligible status whose tenant id is found in the payload
  and read by the store as the key of a tenant with expiration \<open>E\<close> is answered with
  status 200 and the new expiration, which is 30 days after the later of \<open>E\<close> and \<open>now\<close>
  (after \<open>now\<close> when \<open>E\<close> is null); afterwards the row of the tenant holds that
  expiration and is active. The 30 days are calendar days of the zone of the process:
  they differ from 30 times 86400000 ms by the change of the zone's offset over them,
  and are exactly that long in a zone of fixed offset.
\<close>

theorem webhook_master_renews:
  assumes "eligible (status (payload_of req))"
    and "tenantId_of (payload_of req) = Some idText"
    and "parse_id idText = Some i"
    and "outage (supabase srv) = None"
    and "tenants (supabase srv) i = Some tn"
  shows "fst (webhook_master tz srv now req) =
           (200, SuccessBody
                   (setDate_plus tz
                      (case expiration_date tn of None \<Rightarrow> now | Some E \<Rightarrow> max E now) 30)) \<and>
         tenants (supabase (snd (snd (webhook_master tz srv now req)))) i =
           Some (tn\<lparr>expiration_date :=
                       Some (setDate_plus tz
                               (case expiration_date tn of None \<Rightarrow> now | Some E \<Rightarrow> max E now)
                               30),
                    is_active := True\<rparr>) \<and>
         setDate_plus tz (case expiration_date tn of None \<Rightarrow> now | Some E \<Rightarrow> max E now) 30 =
           (case expiration_date tn of None \<Rightarrow> now | Some E \<Rightarrow> max E now) + 30 * 86400000
           + (LocalTZA_utc tz (case expiration_date tn of None \<Rightarrow> now | Some E \<Rightarrow> max E now)
              - LocalTZA_local tz
                  ((case expiration_date tn of None \<Rightarrow> now | Some E \<Rightarrow> max E now)
                   + LocalTZA_utc tz
                       (case expiration_date tn of None \<Rightarrow> now | Some E \<Rightarrow> max E now)
                   + 30 * 86400000)) \<and>
         ((\<forall>t. LocalTZA_utc tz t = c \<and> LocalTZA_local tz t = c) \<longrightarrow>
            setDate_plus tz (case expiration_date tn of None \<Rightarrow> now | Some E \<Rightarrow> max E now) 30 =
              (case expiration_date tn of None \<Rightarrow> now | Some E \<Rightarrow> max E now)
              + 30 * 86400000)"
proof -
  let ?base = "case expiration_date tn of None \<Rightarrow> now | Some E \<Rightarrow> max E now"
  from assms(3) have ne: "idText \<noteq> []"
    by (auto simp: parse_id_def split: if_splits)
  then have tr: "truthy (Some idText)" by (simp add: truthy_def)
  have b: "(case expiration_date tn of None \<Rightarrow> now | Some e \<Rightarrow> if e > now then e else now)
             = ?base"
    by (simp add: max_def split: option.splits)
  have sel: "select_tenant (supabase srv) idText =
               ((Some tn, None), (supabase srv)\<lparr>selects := Suc (selects (supabase srv))\<rparr>)"
    using assms(3-5) by (simp add: select_tenant_def Let_def)
  have upd: "\<And>f. snd (update_tenant_text
                        ((supabase srv)\<lparr>selects := Suc (selects (supabase srv))\<rparr>) idText f)
               = (supabase srv)\<lparr>selects := Suc (selects (supabase srv)),
                                 tenants := (tenants (supabase srv))(i \<mapsto> f tn)\<rparr>"
    using assms(3-5) by (simp add: update_tenant_text_def update_tenant_def)
  have w: "webhook_master tz srv now req =
      ((200, SuccessBody (setDate_plus tz ?base 30)),
       (if map_has (activeBots srv) (tenant_id tn)
        then (case map_of (activeBots srv) (tenant_id tn) of
                None \<Rightarrow> []
              | Some botInstance \<Rightarrow>
                  if truthy (owner_chat_id tn)
                  then [(botInstance, String_opt (owner_chat_id tn), setDate_plus tz ?base 30)]
                  else [])
        else []),
       srv\<lparr>supabase := (supabase srv)
             \<lparr>selects := Suc (selects (supabase srv)),
              tenants := (tenants (supabase srv))
                (i \<mapsto> tn\<lparr>expiration_date := Some (setDate_plus tz ?base 30),
                          is_active := True\<rparr>)\<rparr>\<rparr>)"
    using assms(1,2) tr
    by (simp add: webhook_master_def Let_def String_opt_def sel upd b)
  have r1: "fst (webhook_master tz srv now req) = (200, SuccessBody (setDate_plus tz ?base 30))"
    by (simp add: w)
  have r2: "tenants (supabase (snd (snd (webhook_master tz srv now req)))) i =
           Some (tn\<lparr>expiration_date := Some (setDate_plus tz ?base 30), is_active := True\<rparr>)"
    by (simp add: w)
  have r3: "setDate_plus tz ?base 30 =
           ?base + 30 * 86400000
           + (LocalTZA_utc tz ?base
              - LocalTZA_local tz (?base + LocalTZA_utc tz ?base + 30 * 86400000))"
    by (simp add: setDate_plus_def Let_def)
  have r4: "(\<forall>t. LocalTZA_utc tz t = c \<and> LocalTZA_local tz t = c) \<longrightarrow>
            setDate_plus tz ?base 30 = ?base + 30 * 86400000"
    by (simp add: setDate_plus_def Let_def)
  from r1 r2 r3 r4 show ?thesis by blast
qed

text \<open>
  Witness of C1: tenant 7, expired at 500 and inactive, with the e-mail
  \<^verbatim>\<open>tenant_7@venux.com\<close>: paid at instant 1000 in UTC, and paid on 2026-10-20, 12:00
  UTC in New York, where the clocks go back an hour within the 30 days.
\<close>

theorem webhook_master_renews_witness:
  "eligible (status (payload_of paid_request)) \<and>
   tenantId_of (payload_of paid_request) = Some ''7'' \<and> parse_id ''7'' = Some 7 \<and>
   outage (supabase server_with_tenant7) = None \<and>
   tenants (supabase server_with_tenant7) 7 = Some tenant7 \<and>
   (\<forall>t. LocalTZA_utc utc_zone t = 0 \<and> LocalTZA_local utc_zone t = 0) \<and>
   fst (webhook_master utc_zone server_with_tenant7 1000 paid_request)
     = (200, SuccessBody 2592001000) \<and>
   tenants (supabase (snd (snd (webhook_master utc_zone server_with_tenant7 1000 paid_request)))) 7
     = Some (tenant7\<lparr>expiration_date := Some 2592001000, is_active := True\<rparr>) \<and>
   fst (webhook_master new_york_2026 server_with_tenant7 1792497600000 paid_request)
     = (200, SuccessBody 1795093200000)"
proof -
  have e: "eligible (status (payload_of paid_request))"
    by (simp add: eligible_def payload_of_def paid_request_def)
  have o: "outage (supabase server_with_tenant7) = None"
    by (simp add: server_with_tenant7_def empty_server_def empty_db_def)
  have r: "tenants (supabase server_with_tenant7) 7 = Some tenant7"
    by (simp add: server_with_tenant7_def empty_server_def empty_db_def)
  have x: "expiration_date tenant7 = Some 500"
    by (simp add: tenant7_def)
  have z: "\<forall>t. LocalTZA_utc utc_zone t = 0 \<and> LocalTZA_local utc_zone t = 0"
    by (simp add: utc_zone_def)
  note u = webhook_master_renews [OF e tenantId_of_paid parse_id_7 o r, of utc_zone 1000 0]
  note n = webhook_master_renews [OF e tenantId_of_paid parse_id_7 o r,
                                  of new_york_2026 1792497600000 0]
  have u4: "setDate_plus utc_zone (case expiration_date tenant7 of None \<Rightarrow> 1000
                                   | Some E \<Rightarrow> max E 1000) 30 = 2592001000"
    using u [THEN conjunct2, THEN conjunct2, THEN conjunct2, THEN mp, OF z] by (simp add: x)
  have u1: "fst (webhook_master utc_zone server_with_tenant7 1000 paid_request)
     = (200, SuccessBody 2592001000)"
    using u [THEN conjunct1] by (simp only: u4)
  have u2: "tenants (supabase (snd (snd (webhook_master utc_zone server_with_tenant7 1000
              paid_request)))) 7
     = Some (tenant7\<lparr>expiration_date := Some 2592001000, is_active := True\<rparr>)"
    using u [THEN conjunct2, THEN conjunct1] by (simp only: u4)
  have n3: "setDate_plus new_york_2026 (case expiration_date tenant7 of None \<Rightarrow> 1792497600000
                                   | Some E \<Rightarrow> max E 1792497600000) 30 = 1795093200000"
    using n [THEN conjunct2, THEN conjunct2, THEN conjunct1]
    by (simp add: x new_york_2026_def)
  have n1: "fst (webhook_master new_york_2026 server_with_tenant7 1792497600000 paid_request)
     = (200, SuccessBody 1795093200000)"
    using n [THEN conjunct1] by (simp only: n3)
  from e tenantId_of_paid parse_id_7 o r z u1 u2 n1 show ?thesis by blast
qed

text \<open>
  C6. A notification whose status is none of the eligible ones is answered with status
  200 and \<^verbatim>\<open>ignored: true\<close>, sends nothing, and leaves the whole state, the store and
  every tenant row in it included, as it was.
\<close>

theorem webhook_master_ignores:
  assumes "\<not> eligible (status (payload_of req))"
  shows "webhook_master tz srv now req =
           ((200, IgnoredBody (''Status '' @ (case status (payload_of req) of
                                                None \<Rightarrow> ''undefined'' | Some x \<Rightarrow> x)
                               @ '' not eligible'')), [], srv)"
  using assms by (simp add: webhook_master_def Let_def)

text \<open>Witness of C6: a notification for tenant 7 with status \<^verbatim>\<open>pending\<close>.\<close>

theorem webhook_master_ignores_witness:
  "\<not> eligible (status (payload_of pending_request)) \<and>
   webhook_master utc_zone server_with_tenant7 1000 pending_request =
     ((200, IgnoredBody ''Status pending not eligible''), [], server_with_tenant7)"
proof -
  have e: "\<not> eligible (status (payload_of pending_request))"
    by (simp add: eligible_def payload_of_def pending_request_def)
  have s: "status (payload_of pending_request) = Some ''pending''"
    by (simp add: payload_of_def pending_request_def)
  show ?thesis
    using e webhook_master_ignores [OF e, of utc_zone server_with_tenant7 1000] by (simp add: s)
qed

section \<open>Properties of the master bot\<close>

text \<open>
  The middleware does keep other chats out: an update of a chat other than the
  operator's that is not the text \<^verbatim>\<open>/meu_id\<close> is dropped, or answered with the
  warning when no operator is configured, and reaches no handler.
\<close>

lemma master_gate:
  assumes "message_text u \<noteq> Some ''/meu_id''"
    and "String_js (chat_id u) \<noteq> String_opt a"
  shows "master_bot a u = (if truthy a then Dropped else Warned)"
  using assms by (simp add: master_bot_def master_security_def)

text \<open>No update at all reaches the handler of the command \<^verbatim>\<open>/meu_id\<close>.\<close>

lemma master_bot_never_meu_id: "master_bot a u \<noteq> Handled Cmd_meu_id"
  by (cases u)
     (auto simp: master_bot_def master_handlers_def is_command_def
           split: guard.splits option.splits if_splits)

text \<open>
  C10, on the code: the text \<^verbatim>\<open>/meu_id\<close> from chat 42, with operator 1 configured,
  passes the middleware and is taken by the text handler, registered before the
  command; the chat has no wizard session, so the handler returns without a reply.
\<close>

theorem meu_id_not_answered:
  "master_security (Some ''1'') (Message 42 (Some ''/meu_id'')) = PassOn \<and>
   master_bot (Some ''1'') (Message 42 (Some ''/meu_id'')) = Handled On_text \<and>
   master_on_text Map.empty 42 ''/meu_id'' = NoSession"
  by (simp add: master_security_def master_bot_def master_handlers_def is_command_def
      master_on_text_def)

end
